theory Spec2Isabelle
  imports Main "HOL-Library.Word" "HOL-Library.Sublist" "HOL-Library.Char_ord"
    "HOL-Library.List_Lexorder" "HOL-Library.Multiset"
begin

unbundle bit_operations_syntax

section \<open>Deposit data input of ethdo: a model of \<^verbatim>\<open>input()\<close> and of its helpers\<close>

text \<open>
  The theory embeds \<^verbatim>\<open>cmd/validator/depositdata/input.go\<close> (function \<^verbatim>\<open>input\<close>) and the
  helpers of \<^verbatim>\<open>cmd/root.go\<close> it relies on (\<^verbatim>\<open>walletFromPath\<close>,
  \<^verbatim>\<open>walletAndAccountFromPath\<close>, \<^verbatim>\<open>walletAndAccountsFromPath\<close>, \<^verbatim>\<open>bestPublicKey\<close>,
  \<^verbatim>\<open>remotesToEndpoints\<close>). \<^verbatim>\<open>input.go\<close> reaches the helpers through package
  \<^verbatim>\<open>core\<close>, whose exported functions carry the names of the ones in \<^verbatim>\<open>root.go\<close>; the
  definitions below follow \<^verbatim>\<open>root.go\<close>.

  Go slices of bytes are lists of 8-bit words, Go strings are lists of characters (a
  character is one byte), \<^verbatim>\<open>uint64\<close> is a 64-bit word.
\<close>

type_synonym byte = "8 word"
type_synonym bytes = "byte list"
type_synonym u32 = "32 word"

subsection \<open>Errors\<close>

text \<open>
  A Go \<^verbatim>\<open>error\<close> is a value of the datatype below. \<open>New\<close> is \<^verbatim>\<open>errors.New\<close>, \<open>Wrap\<close> is
  \<^verbatim>\<open>errors.Wrap\<close> (cause first, message second, as in the call), \<open>Ext\<close> is an error that
  a collaborator outside these sources returned, with its message. \<open>InvalidByteError\<close>
  and \<open>ErrLength\<close> are the two errors of \<^verbatim>\<open>encoding/hex\<close>, \<open>ErrSyntax\<close> and \<open>ErrRange\<close>
  the two of \<^verbatim>\<open>strconv.ParseUint\<close>. \<open>InvalidRemote r\<close> is
  \<^verbatim>\<open>fmt.Errorf("invalid remote %q", r)\<close> and \<open>InvalidPort e r\<close> is
  \<^verbatim>\<open>errors.Wrap(e, fmt.Sprintf("invalid port in remote %q", r))\<close>.

  Three constructors are not returned errors. \<open>Panic\<close> is a Go panic and \<open>Exit\<close> is the
  end of the process (the helpers \<^verbatim>\<open>assert\<close> and \<^verbatim>\<open>errCheck\<close> of package \<^verbatim>\<open>cmd\<close>, which
  are not among the sources, are taken to end the process with their message when the
  condition is false or the error is not nil). \<open>NotModelled\<close> marks an input on which a
  library is called outside the part of it that this theory models. None of the three
  is caught by an \<^verbatim>\<open>if err != nil\<close>: they pass through every caller unchanged.
\<close>

datatype error =
    New string
  | Wrap error string
  | Ext string
  | InvalidByteError char
  | ErrLength
  | ErrSyntax
  | ErrRange
  | InvalidRemote string
  | InvalidPort error string
  | Panic string
  | Exit string
  | NotModelled string

fun aborts :: "error \<Rightarrow> bool" where
  "aborts (Panic m) = True"
| "aborts (Exit m) = True"
| "aborts (NotModelled m) = True"
| "aborts e = False"

text \<open>\<^verbatim>\<open>errors.Wrap(err, msg)\<close> on the path \<^verbatim>\<open>if err != nil\<close>, which an abort never takes.\<close>

definition wrap :: "error \<Rightarrow> string \<Rightarrow> error" where
  "wrap err msg = (if aborts err then err else Wrap err msg)"

text \<open>\<^verbatim>\<open>errors.New(msg)\<close> on the path \<^verbatim>\<open>if err != nil\<close>: the cause is dropped.\<close>

definition replace :: "error \<Rightarrow> string \<Rightarrow> error" where
  "replace err msg = (if aborts err then err else New msg)"

subsection \<open>Package \<^verbatim>\<open>strings\<close>, \<^verbatim>\<open>strconv\<close> and \<^verbatim>\<open>encoding/hex\<close>\<close>

definition HasPrefix :: "string \<Rightarrow> string \<Rightarrow> bool" where
  "HasPrefix s p = prefix p s"

definition TrimPrefix :: "string \<Rightarrow> string \<Rightarrow> string" where
  "TrimPrefix s p = (if HasPrefix s p then drop (length p) s else s)"

fun Contains :: "string \<Rightarrow> string \<Rightarrow> bool" where
  "Contains [] substr = (substr = [])"
| "Contains (c # s) substr = (prefix substr (c # s) \<or> Contains s substr)"

text \<open>\<^verbatim>\<open>strings.Split(s, sep)\<close> for a separator of one character.\<close>

fun Split :: "string \<Rightarrow> char \<Rightarrow> string list" where
  "Split [] sep = [[]]"
| "Split (c # s) sep =
     (if c = sep then [] # Split s sep
      else (case Split s sep of [] \<Rightarrow> [[c]] | p # ps \<Rightarrow> (c # p) # ps))"

definition isDigit :: "char \<Rightarrow> bool" where
  "isDigit c = (48 \<le> (of_char c :: nat) \<and> (of_char c :: nat) \<le> 57)"

definition decimal :: "string \<Rightarrow> nat" where
  "decimal s = foldl (\<lambda>n c. 10 * n + ((of_char c :: nat) - 48)) 0 s"

text \<open>
  \<^verbatim>\<open>strconv.ParseUint(s, 10, 32)\<close>: digits only, at least one, and a value below
  \<open>2 ^ 32\<close>.
\<close>

definition ParseUint32 :: "string \<Rightarrow> error + 32 word" where
  "ParseUint32 s =
     (if s = [] \<or> \<not> list_all isDigit s then Inl ErrSyntax
      else if 2 ^ 32 \<le> decimal s then Inl ErrRange
      else Inr (word_of_int (int (decimal s))))"

text \<open>The table \<^verbatim>\<open>reverseHexTable\<close> of \<^verbatim>\<open>encoding/hex\<close>: \<open>None\<close> is its entry \<^verbatim>\<open>0xff\<close>.\<close>

definition fromHexChar :: "char \<Rightarrow> byte option" where
  "fromHexChar c =
     (let n = (of_char c :: nat) in
      if 48 \<le> n \<and> n \<le> 57 then Some (of_nat (n - 48))
      else if 97 \<le> n \<and> n \<le> 102 then Some (of_nat (n - 87))
      else if 65 \<le> n \<and> n \<le> 70 then Some (of_nat (n - 55))
      else None)"

text \<open>
  \<^verbatim>\<open>hex.DecodeString\<close>: pairs of digits from the left, the first bad character reported
  before an odd length. The bytes decoded before an error are dropped, as every caller
  here ignores them.
\<close>

fun DecodeString :: "string \<Rightarrow> error + bytes" where
  "DecodeString [] = Inr []"
| "DecodeString [p] =
     (case fromHexChar p of None \<Rightarrow> Inl (InvalidByteError p) | Some a \<Rightarrow> Inl ErrLength)"
| "DecodeString (p # q # s) =
     (case fromHexChar p of
        None \<Rightarrow> Inl (InvalidByteError p)
      | Some a \<Rightarrow>
          (case fromHexChar q of
             None \<Rightarrow> Inl (InvalidByteError q)
           | Some b \<Rightarrow>
               (case DecodeString s of
                  Inl err \<Rightarrow> Inl err
                | Inr bs \<Rightarrow> Inr ((push_bit 4 a OR b) # bs))))"

subsection \<open>SHA-256 (\<^verbatim>\<open>util.SHA256\<close>)\<close>

text \<open>
  \<^verbatim>\<open>util.SHA256\<close> of go-eth2-util is the SHA-256 of FIPS 180-4 over the concatenation of
  its arguments; it is called here with one argument. The message schedule is kept as
  a window of sixteen words that slides by one word each round. The round constants
  \<open>K256\<close> and the initial hash value \<open>H256\<close> are written in decimal.
\<close>

definition rotr :: "nat \<Rightarrow> u32 \<Rightarrow> u32" where
  "rotr n x = (drop_bit n x) OR (push_bit (32 - n) x)"

definition Ch :: "u32 \<Rightarrow> u32 \<Rightarrow> u32 \<Rightarrow> u32" where
  "Ch x y z = (x AND y) XOR (NOT x AND z)"

definition Maj :: "u32 \<Rightarrow> u32 \<Rightarrow> u32 \<Rightarrow> u32" where
  "Maj x y z = (x AND y) XOR (x AND z) XOR (y AND z)"

definition bsig0 :: "u32 \<Rightarrow> u32" where
  "bsig0 x = rotr 2 x XOR rotr 13 x XOR rotr 22 x"

definition bsig1 :: "u32 \<Rightarrow> u32" where
  "bsig1 x = rotr 6 x XOR rotr 11 x XOR rotr 25 x"

definition ssig0 :: "u32 \<Rightarrow> u32" where
  "ssig0 x = rotr 7 x XOR rotr 18 x XOR drop_bit 3 x"

definition ssig1 :: "u32 \<Rightarrow> u32" where
  "ssig1 x = rotr 17 x XOR rotr 19 x XOR drop_bit 10 x"

definition K256 :: "u32 list" where
  "K256 =
    [1116352408, 1899447441, 3049323471, 3921009573, 961987163, 1508970993,
     2453635748, 2870763221, 3624381080, 310598401, 607225278, 1426881987,
     1925078388, 2162078206, 2614888103, 3248222580, 3835390401, 4022224774,
     264347078, 604807628, 770255983, 1249150122, 1555081692, 1996064986,
     2554220882, 2821834349, 2952996808, 3210313671, 3336571891, 3584528711,
     113926993, 338241895, 666307205, 773529912, 1294757372, 1396182291,
     1695183700, 1986661051, 2177026350, 2456956037, 2730485921, 2820302411,
     3259730800, 3345764771, 3516065817, 3600352804, 4094571909, 275423344,
     430227734, 506948616, 659060556, 883997877, 958139571, 1322822218,
     1537002063, 1747873779, 1955562222, 2024104815, 2227730452, 2361852424,
     2428436474, 2756734187, 3204031479, 3329325298]"

definition H256 :: "u32 list" where
  "H256 =
    [1779033703, 3144134277, 1013904242, 2773480762,
     1359893119, 2600822924, 528734635, 1541459225]"

fun be32 :: "bytes \<Rightarrow> u32 list" where
  "be32 (a # b # c # d # rest) =
     (push_bit 24 (ucast a) OR push_bit 16 (ucast b) OR push_bit 8 (ucast c) OR ucast d)
       # be32 rest"
| "be32 rest = []"

definition bytes_of_u32 :: "u32 \<Rightarrow> bytes" where
  "bytes_of_u32 w =
     [ucast (drop_bit 24 w), ucast (drop_bit 16 w), ucast (drop_bit 8 w), ucast w]"

definition bytes_of_u64 :: "64 word \<Rightarrow> bytes" where
  "bytes_of_u64 w =
     [ucast (drop_bit 56 w), ucast (drop_bit 48 w), ucast (drop_bit 40 w),
      ucast (drop_bit 32 w), ucast (drop_bit 24 w), ucast (drop_bit 16 w),
      ucast (drop_bit 8 w), ucast w]"

definition sha_pad :: "bytes \<Rightarrow> bytes" where
  "sha_pad m = m @ [0x80] @ replicate ((119 - length m mod 64) mod 64) 0
                 @ bytes_of_u64 (of_nat (8 * length m))"

definition next_w :: "u32 list \<Rightarrow> u32 list" where
  "next_w ws = tl ws @ [ssig1 (ws ! 14) + ws ! 9 + ssig0 (ws ! 1) + ws ! 0]"

fun sha_round :: "u32 \<Rightarrow> u32 \<Rightarrow> u32 list \<Rightarrow> u32 list" where
  "sha_round k w [a, b, c, d, e, f, g, h] =
     (let t1 = h + bsig1 e + Ch e f g + k + w;
          t2 = bsig0 a + Maj a b c
      in [t1 + t2, a, b, c, d + t1, e, f, g])"
| "sha_round k w st = st"

fun sha_rounds :: "u32 list \<Rightarrow> u32 list \<Rightarrow> u32 list \<Rightarrow> u32 list" where
  "sha_rounds [] ws st = st"
| "sha_rounds (k # ks) ws st = sha_rounds ks (next_w ws) (sha_round k (hd ws) st)"

definition sha_block :: "u32 list \<Rightarrow> bytes \<Rightarrow> u32 list" where
  "sha_block hs blk = map2 (+) hs (sha_rounds K256 (be32 blk) hs)"

fun sha_blocks :: "nat \<Rightarrow> u32 list \<Rightarrow> bytes \<Rightarrow> u32 list" where
  "sha_blocks 0 hs bs = hs"
| "sha_blocks (Suc n) hs bs = sha_blocks n (sha_block hs (take 64 bs)) (drop 64 bs)"

definition SHA256 :: "bytes \<Rightarrow> bytes" where
  "SHA256 m =
     (let p = sha_pad m in concat (map bytes_of_u32 (sha_blocks (length p div 64) H256 p)))"

subsection \<open>The signing domain (\<^verbatim>\<open>e2types.Domain\<close>)\<close>

text \<open>
  \<^verbatim>\<open>e2types.Domain\<close> of go-eth2-types is \<^verbatim>\<open>compute_domain\<close> of the consensus
  specification: the four bytes of the domain type, then the first 28 bytes of the hash
  tree root of the fork data, which for a fork version of 4 bytes and a root of 32 bytes
  is the SHA-256 of the version padded with zeros to 32 bytes, followed by the root.
  What the library does with a version or a root of another length is not modelled.
\<close>

definition DomainDeposit :: bytes where
  "DomainDeposit = [3, 0, 0, 0]"

definition ZeroGenesisValidatorsRoot :: bytes where
  "ZeroGenesisValidatorsRoot = replicate 32 0"

definition Domain :: "bytes \<Rightarrow> bytes \<Rightarrow> bytes \<Rightarrow> error + bytes" where
  "Domain domainType forkVersion genesisValidatorsRoot =
     (if length domainType = 4 \<and> length forkVersion = 4 \<and> length genesisValidatorsRoot = 32
      then Inr (domainType
                @ take 28 (SHA256 (forkVersion @ replicate 28 0 @ genesisValidatorsRoot)))
      else Inl (NotModelled ''Domain: fork version or root of unexpected length''))"

subsection \<open>Package \<^verbatim>\<open>regexp\<close>\<close>

text \<open>
  Go's regular expressions work on runes. A rune is kept here as the bytes of its UTF-8
  encoding; \<open>utf8_len\<close> is the width of the well-formed encoding at the head of a string
  (the table of \<^verbatim>\<open>unicode/utf8\<close>: no overlong forms, no surrogates, nothing above
  U+10FFFF), and \<open>DecodeRune\<close> gives \<^verbatim>\<open>utf8.RuneError\<close> with width 1 where there is none.
\<close>

type_synonym rune = string

definition between :: "nat \<Rightarrow> nat \<Rightarrow> char \<Rightarrow> bool" where
  "between lo hi c = (lo \<le> (of_char c :: nat) \<and> (of_char c :: nat) \<le> hi)"

definition utf8_len :: "string \<Rightarrow> nat option" where
  "utf8_len s =
     (case s of
        [] \<Rightarrow> None
      | b0 # r \<Rightarrow>
          (let n = (of_char b0 :: nat) in
           if n < 0x80 then Some 1
           else if 0xC2 \<le> n \<and> n \<le> 0xDF then
             (case r of
                b1 # r1 \<Rightarrow> if between 0x80 0xBF b1 then Some 2 else None
              | [] \<Rightarrow> None)
           else if 0xE0 \<le> n \<and> n \<le> 0xEF then
             (case r of
                b1 # b2 # r2 \<Rightarrow>
                  if between (if n = 0xE0 then 0xA0 else 0x80) (if n = 0xED then 0x9F else 0xBF) b1
                     \<and> between 0x80 0xBF b2
                  then Some 3 else None
              | r1 \<Rightarrow> None)
           else if 0xF0 \<le> n \<and> n \<le> 0xF4 then
             (case r of
                b1 # b2 # b3 # r3 \<Rightarrow>
                  if between (if n = 0xF0 then 0x90 else 0x80) (if n = 0xF4 then 0x8F else 0xBF) b1
                     \<and> between 0x80 0xBF b2 \<and> between 0x80 0xBF b3
                  then Some 4 else None
              | r1 \<Rightarrow> None)
           else None))"

definition RuneError :: rune where
  "RuneError = [char_of (0xEF :: nat), char_of (0xBF :: nat), char_of (0xBD :: nat)]"

definition DecodeRune :: "string \<Rightarrow> rune \<times> nat" where
  "DecodeRune s = (case utf8_len s of Some w \<Rightarrow> (take w s, w) | None \<Rightarrow> (RuneError, 1))"

text \<open>The runes of a string with their widths, as reading it rune by rune gives them.\<close>

fun decode :: "string \<Rightarrow> (rune \<times> nat) list" where
  "decode [] = []"
| "decode (c # s) = DecodeRune (c # s) # decode (drop (snd (DecodeRune (c # s)) - 1) s)"

definition runes :: "string \<Rightarrow> rune list" where
  "runes s = map fst (decode s)"

text \<open>\<^verbatim>\<open>checkUTF8\<close> of \<^verbatim>\<open>regexp/syntax\<close>: no rune is \<^verbatim>\<open>RuneError\<close> of width 1.\<close>

definition checkUTF8 :: "string \<Rightarrow> bool" where
  "checkUTF8 s = list_all (\<lambda>(r, w). \<not> (r = RuneError \<and> w = 1)) (decode s)"

text \<open>
  The syntax tree of \<^verbatim>\<open>regexp/syntax\<close>, for the operators that the modelled part of the
  syntax produces. \<^verbatim>\<open>regexp.Compile\<close> parses with the flags \<^verbatim>\<open>syntax.Perl\<close>, under which
  \<^verbatim>\<open>^\<close> is the beginning of the text, \<^verbatim>\<open>$\<close> its end and \<^verbatim>\<open>.\<close> any rune but a newline.
\<close>

datatype Regexp =
    OpEmptyMatch
  | OpLiteral rune
  | OpAnyCharNotNL
  | OpBeginText
  | OpEndText
  | OpCapture Regexp
  | OpStar Regexp
  | OpPlus Regexp
  | OpQuest Regexp
  | OpConcat "Regexp list"
  | OpAlternate "Regexp list"

text \<open>
  The parser of \<^verbatim>\<open>regexp/syntax\<close> keeps one stack with markers for \<^verbatim>\<open>(\<close> and \<^verbatim>\<open>|\<close>. Here
  the stack is cut at the \<^verbatim>\<open>(\<close> markers into frames; a frame holds the alternatives
  closed by a \<^verbatim>\<open>|\<close> so far and the items of the concatenation being read. \<open>concat\<close>
  and \<open>alternate\<close> are the parser's methods of these names (an empty concatenation is
  the empty match, a single item stays as it is).

  \<open>lastRepeat\<close> is the parser's variable of this name: a repetition operator may not
  follow another one, except that \<^verbatim>\<open>?\<close> right after an operator marks it as non-greedy,
  which does not change what matches.

  Modelled: literals, \<^verbatim>\<open>.\<close>, \<^verbatim>\<open>^\<close>, \<^verbatim>\<open>$\<close>, \<^verbatim>\<open>*\<close>, \<^verbatim>\<open>+\<close>, \<^verbatim>\<open>?\<close>, \<^verbatim>\<open>|\<close> and capturing groups. A
  pattern with a backslash, a bracket \<^verbatim>\<open>[\<close>, a brace \<^verbatim>\<open>{\<close> or a group that begins
  with \<^verbatim>\<open>(?\<close> is outside the model; the limits of the library on the size of a
  pattern are not modelled either.
\<close>

datatype lastRepeat = NoRepeat | Repeat | RepeatLazy

type_synonym frame = "Regexp list \<times> Regexp list"

definition concat_re :: "Regexp list \<Rightarrow> Regexp" where
  "concat_re items = (case items of [] \<Rightarrow> OpEmptyMatch | [r] \<Rightarrow> r | r # rs \<Rightarrow> OpConcat items)"

definition alternate :: "Regexp list \<Rightarrow> Regexp" where
  "alternate alts = (case alts of [r] \<Rightarrow> r | rs \<Rightarrow> OpAlternate alts)"

definition repeat_op :: "rune \<Rightarrow> Regexp \<Rightarrow> Regexp" where
  "repeat_op r sub = (if r = ''*'' then OpStar sub else if r = ''+'' then OpPlus sub else OpQuest sub)"

text \<open>
  One round of the parser's loop, at the rune \<open>r\<close> of the pattern; \<open>t\<close> is the rest of
  the pattern after \<open>r\<close>. The state is the value of \<open>lastRepeat\<close>, the frame being read
  and the frames below it.
\<close>

type_synonym parser = "lastRepeat \<times> frame \<times> frame list"

definition parse_step :: "rune \<Rightarrow> rune list \<Rightarrow> parser \<Rightarrow> error + parser" where
  "parse_step r t p =
     (case p of (lr, (alts, items), stack) \<Rightarrow>
      if r = ''('' then
        (if take 1 t = [''?''] then Inl (NotModelled ''regexp: group starting with (?'')
         else Inr (NoRepeat, ([], []), (alts, items) # stack))
      else if r = ''|'' then Inr (NoRepeat, (alts @ [concat_re items], []), stack)
      else if r = '')'' then
        (case stack of
           [] \<Rightarrow> Inl (Panic ''regexp: Compile: unexpected )'')
         | (alts', items') # stack' \<Rightarrow>
             Inr (NoRepeat,
                  (alts', items' @ [OpCapture (alternate (alts @ [concat_re items]))]), stack'))
      else if r = ''^'' then Inr (NoRepeat, (alts, items @ [OpBeginText]), stack)
      else if r = ''$'' then Inr (NoRepeat, (alts, items @ [OpEndText]), stack)
      else if r = ''.'' then Inr (NoRepeat, (alts, items @ [OpAnyCharNotNL]), stack)
      else if r = ''*'' \<or> r = ''+'' \<or> r = ''?'' then
        (if lr = Repeat \<and> r = ''?'' then Inr (RepeatLazy, (alts, items), stack)
         else if lr \<noteq> NoRepeat then
           Inl (Panic ''regexp: Compile: invalid nested repetition operator'')
         else if items = [] then
           Inl (Panic ''regexp: Compile: missing argument to repetition operator'')
         else Inr (Repeat, (alts, butlast items @ [repeat_op r (last items)]), stack))
      else if r = ''['' \<or> r = ''{'' \<or> r = [CHR 0x5C] then
        Inl (NotModelled ''regexp: character class, counted repetition or escape'')
      else Inr (NoRepeat, (alts, items @ [OpLiteral r]), stack))"

fun parse_loop :: "rune list \<Rightarrow> parser \<Rightarrow> error + parser" where
  "parse_loop [] p = Inr p"
| "parse_loop (r # t) p =
     (case parse_step r t p of Inl err \<Rightarrow> Inl err | Inr p' \<Rightarrow> parse_loop t p')"

text \<open>After the loop: the pattern is complete when no \<^verbatim>\<open>(\<close> is left open.\<close>

definition parse :: "rune list \<Rightarrow> error + Regexp" where
  "parse rs =
     (case parse_loop rs (NoRepeat, ([], []), []) of
        Inl err \<Rightarrow> Inl err
      | Inr (lr, (alts, items), stack) \<Rightarrow>
          if stack = [] then Inr (alternate (alts @ [concat_re items]))
          else Inl (Panic ''regexp: Compile: missing closing )''))"

definition MustCompile :: "string \<Rightarrow> error + Regexp" where
  "MustCompile str =
     (if \<not> checkUTF8 str then Inl (Panic ''regexp: Compile: invalid UTF-8'')
      else parse (runes str))"

text \<open>
  Matching. \<open>ends re t ps\<close> is the list of positions (indices into the runes \<open>t\<close> of the
  text) at which a match of \<open>re\<close> that starts at one of the positions \<open>ps\<close> can end.
  A star is closed by iteration: there are \<open>length t + 1\<close> positions, so that many
  rounds reach every position that can be reached.
\<close>

definition closure :: "(nat list \<Rightarrow> nat list) \<Rightarrow> nat \<Rightarrow> nat list \<Rightarrow> nat list" where
  "closure f n ps = ((\<lambda>S. remdups (S @ f S)) ^^ n) ps"

fun ends :: "Regexp \<Rightarrow> rune list \<Rightarrow> nat list \<Rightarrow> nat list" where
  "ends OpEmptyMatch t ps = ps"
| "ends (OpLiteral r) t ps = map Suc (filter (\<lambda>i. i < length t \<and> t ! i = r) ps)"
| "ends OpAnyCharNotNL t ps = map Suc (filter (\<lambda>i. i < length t \<and> t ! i \<noteq> [CHR 0x0A]) ps)"
| "ends OpBeginText t ps = filter (\<lambda>i. i = 0) ps"
| "ends OpEndText t ps = filter (\<lambda>i. i = length t) ps"
| "ends (OpCapture re) t ps = ends re t ps"
| "ends (OpStar re) t ps = closure (\<lambda>S. ends re t S) (Suc (length t)) ps"
| "ends (OpPlus re) t ps = closure (\<lambda>S. ends re t S) (Suc (length t)) (ends re t ps)"
| "ends (OpQuest re) t ps = remdups (ps @ ends re t ps)"
| "ends (OpConcat res) t ps = fold (\<lambda>re S. ends re t S) res ps"
| "ends (OpAlternate res) t ps = remdups (concat (map (\<lambda>re. ends re t ps) res))"

text \<open>
  \<^verbatim>\<open>re.Match(b)\<close> reports whether \<open>b\<close> contains a match: the match may start at any rune
  of the text and end at any.
\<close>

definition Match :: "Regexp \<Rightarrow> string \<Rightarrow> bool" where
  "Match re b = (let t = runes b in ends re t [0 ..< Suc (length t)] \<noteq> [])"

subsection \<open>Accounts, wallets and the collaborators\<close>

text \<open>
  A value of a Go interface is modelled by what its methods return. A public key
  (\<^verbatim>\<open>e2types.PublicKey\<close>) is used through \<^verbatim>\<open>Marshal\<close> only. An account has a name; the
  type assertions \<^verbatim>\<open>account.(e2wtypes.AccountCompositePublicKeyProvider)\<close> and
  \<^verbatim>\<open>account.(e2wtypes.AccountPublicKeyProvider)\<close> succeed when the field of that name
  is \<open>Some\<close> key, the key that the method returns.
\<close>

record public_key =
  Marshal :: bytes

record account =
  Name :: string
  CompositePublicKey :: "public_key option"
  PublicKey :: "public_key option"

text \<open>
  A wallet: its type, the accounts in the order in which the channel of
  \<^verbatim>\<open>wallet.Accounts(ctx)\<close> yields them, and two optional capabilities. \<open>AccountByName\<close> is
  \<open>None\<close> when the wallet is no \<^verbatim>\<open>WalletAccountByNameProvider\<close>; its first argument
  tells whether \<^verbatim>\<open>walletAndAccountFromPath\<close> has unlocked the wallet before the call.
  \<open>Locker\<close> is \<open>None\<close> when the wallet is no \<^verbatim>\<open>WalletLocker\<close>; \<open>Unlock\<close> and \<open>Lock\<close>
  return the message of their error, if any.
\<close>

record locker =
  Unlock :: "bytes \<Rightarrow> string option"
  Lock :: "string option"

record wallet =
  Type :: string
  Accounts :: "account list"
  AccountByName :: "(bool \<Rightarrow> string \<Rightarrow> string + account) option"
  Locker :: "locker option"

datatype Credentials = Credentials string

record Endpoint =
  endpoint_host :: string
  endpoint_port :: "32 word"

datatype ClientConn = ClientConn string

text \<open>A value of the chain configuration: a byte slice, or a value of another type.\<close>

datatype config_value = Bytes bytes | Other

text \<open>
  The environment of one run: the settings of \<^verbatim>\<open>viper\<close> and the results of the calls
  to collaborators whose code is outside these sources. A collaborator that fails
  returns the message of its error (\<open>Inl\<close>). Contexts and their timeouts are left out:
  a call that times out is a call that fails.

  \<open>getWalletPassphrase\<close> is the result of the helper of that name of package \<^verbatim>\<open>cmd\<close>.
  \<open>WalletAndAccountNames\<close> and \<open>OpenWallet\<close> are the functions of go-eth2-wallet,
  \<open>ComposeCredentials\<close> and \<open>dirk_OpenWallet\<close> those of go-eth2-wallet-dirk,
  \<open>BLSPublicKeyFromBytes\<close> is the one of go-eth2-types, \<open>StringToGWei\<close> the one of
  go-string2eth, \<open>Connect\<close> and \<open>FetchChainConfig\<close> those of package \<^verbatim>\<open>grpc\<close> of ethdo.
\<close>

record env =
  GetString :: "string \<Rightarrow> string"
  GetBool :: "string \<Rightarrow> bool"
  getWalletPassphrase :: string
  WalletAndAccountNames :: "string \<Rightarrow> string + (string \<times> string)"
  OpenWallet :: "string \<Rightarrow> string + wallet"
  ComposeCredentials :: "string \<Rightarrow> string \<Rightarrow> string \<Rightarrow> string + Credentials"
  dirk_OpenWallet :: "string \<Rightarrow> Credentials \<Rightarrow> Endpoint list \<Rightarrow> string + wallet"
  BLSPublicKeyFromBytes :: "bytes \<Rightarrow> string + public_key"
  StringToGWei :: "string \<Rightarrow> string + 64 word"
  Connect :: "string + ClientConn"
  FetchChainConfig :: "ClientConn \<Rightarrow> string + (string \<rightharpoonup> config_value)"

subsection \<open>\<^verbatim>\<open>cmd/root.go\<close>\<close>

text \<open>\<^verbatim>\<open>remotesToEndpoints\<close>: the loop stops at the first remote that is not well formed.\<close>

fun remotesToEndpoints :: "string list \<Rightarrow> error + Endpoint list" where
  "remotesToEndpoints [] = Inr []"
| "remotesToEndpoints (remote # remotes) =
     (let parts = Split remote (CHR '':'') in
      if length parts \<noteq> 2 then Inl (InvalidRemote remote)
      else
        (case ParseUint32 (parts ! 1) of
           Inl err \<Rightarrow> Inl (InvalidPort err remote)
         | Inr port \<Rightarrow>
             (case remotesToEndpoints remotes of
                Inl err \<Rightarrow> Inl err
              | Inr endpoints \<Rightarrow> Inr (\<lparr>endpoint_host = parts ! 0, endpoint_port = port\<rparr> # endpoints))))"

definition walletFromPath :: "env \<Rightarrow> string \<Rightarrow> error + wallet" where
  "walletFromPath env path =
     (case WalletAndAccountNames env path of
        Inl err \<Rightarrow> Inl (Ext err)
      | Inr (walletName, accountName) \<Rightarrow>
          if GetString env ''remote'' \<noteq> [] then
            (if GetString env ''client-cert'' = [] then
               Inl (Exit ''remote connections require client-cert'')
             else if GetString env ''client-key'' = [] then
               Inl (Exit ''remote connections require client-key'')
             else
               (case ComposeCredentials env (GetString env ''client-cert'')
                       (GetString env ''client-key'') (GetString env ''server-ca-cert'') of
                  Inl err \<Rightarrow> Inl (Wrap (Ext err) ''failed to build dirk credentials'')
                | Inr credentials \<Rightarrow>
                    (case remotesToEndpoints [GetString env ''remote''] of
                       Inl err \<Rightarrow> Inl (wrap err ''failed to parse remote servers'')
                     | Inr endpoints \<Rightarrow>
                         (case dirk_OpenWallet env walletName credentials endpoints of
                            Inl err \<Rightarrow> Inl (Ext err)
                          | Inr wallet \<Rightarrow> Inr wallet))))
          else
            (case OpenWallet env walletName of
               Inl err \<Rightarrow>
                 if Contains err ''failed to decrypt wallet''
                 then Inl (New ''Incorrect store passphrase'')
                 else Inl (Ext err)
             | Inr wallet \<Rightarrow> Inr wallet))"

text \<open>
  The end of \<^verbatim>\<open>walletAndAccountFromPath\<close>: the type assertion to
  \<^verbatim>\<open>WalletAccountByNameProvider\<close> and the lookup of the account.
\<close>

definition accountByName :: "wallet \<Rightarrow> bool \<Rightarrow> string \<Rightarrow> error + (wallet \<times> account)" where
  "accountByName wallet unlocked accountName =
     (case AccountByName wallet of
        None \<Rightarrow> Inl (New ''wallet cannot obtain accounts by name'')
      | Some provider \<Rightarrow>
          (case provider unlocked accountName of
             Inl err \<Rightarrow> Inl (Wrap (Ext err) ''failed to obtain account'')
           | Inr account \<Rightarrow> Inr (wallet, account)))"

text \<open>
  \<^verbatim>\<open>defer relockAccount(locker)\<close>: when the function returns, the wallet is locked again,
  and \<^verbatim>\<open>errCheck\<close> ends the process if that fails.
\<close>

definition relockAccount :: "locker \<Rightarrow> error + 'a \<Rightarrow> error + 'a" where
  "relockAccount lockr result =
     (case Lock lockr of
        Some err \<Rightarrow> Inl (Exit ''failed to re-lock account'')
      | None \<Rightarrow> result)"

definition walletAndAccountFromPath :: "env \<Rightarrow> string \<Rightarrow> error + (wallet \<times> account)" where
  "walletAndAccountFromPath env path =
     (case walletFromPath env path of
        Inl err \<Rightarrow> Inl (wrap err ''faild to open wallet for account'')
      | Inr wallet \<Rightarrow>
          (case WalletAndAccountNames env path of
             Inl err \<Rightarrow> Inl (Wrap (Ext err) ''failed to obtain accout name'')
           | Inr (walletName, accountName) \<Rightarrow>
               if accountName = [] then Inl (New ''no account name'')
               else if Type wallet = ''hierarchical deterministic'' \<and> HasPrefix accountName ''m/''
               then
                 (if getWalletPassphrase env = [] then
                    Inl (Exit ''--walletpassphrase is required for direct path derivations'')
                  else
                    (case Locker wallet of
                       None \<Rightarrow> accountByName wallet False accountName
                     | Some lockr \<Rightarrow>
                         (case Unlock lockr (map of_char (GetString env ''wallet-passphrase'')) of
                            Some err \<Rightarrow> Inl (New ''failed to unlock wallet'')
                          | None \<Rightarrow>
                              relockAccount lockr (accountByName wallet True accountName))))
               else accountByName wallet False accountName))"

text \<open>
  \<^verbatim>\<open>walletAndAccountsFromPath\<close>. \<^verbatim>\<open>fmt.Sprintf("^%s$", accountSpec)\<close> puts the
  specification between the two characters. \<^verbatim>\<open>sort.Slice\<close> with the comparison of names
  (\<^verbatim>\<open><\<close> on Go strings compares them byte by byte, a proper prefix first) is modelled by
  the sort of the list library on the same order, which keeps accounts of one name in
  the order of the channel; the library promises no order among them.
\<close>

definition walletAndAccountsFromPath :: "env \<Rightarrow> string \<Rightarrow> error + (wallet \<times> account list)" where
  "walletAndAccountsFromPath env path =
     (case walletFromPath env path of
        Inl err \<Rightarrow> Inl (wrap err ''faild to open wallet for account'')
      | Inr wallet \<Rightarrow>
          (case WalletAndAccountNames env path of
             Inl err \<Rightarrow> Inl (Wrap (Ext err) ''failed to obtain account specification'')
           | Inr (walletName, accountSpec) \<Rightarrow>
               (case MustCompile (if accountSpec = [] then ''^.*$''
                                  else ''^'' @ accountSpec @ ''$'') of
                  Inl err \<Rightarrow> Inl err
                | Inr re \<Rightarrow>
                    Inr (wallet,
                         sort_key Name
                           (filter (\<lambda>account. Match re (Name account)) (Accounts wallet))))))"

definition bestPublicKey :: "account \<Rightarrow> error + public_key" where
  "bestPublicKey account =
     (case CompositePublicKey account of
        Some pubKey \<Rightarrow> Inr pubKey
      | None \<Rightarrow>
          (case PublicKey account of
             Some pubKey \<Rightarrow> Inr pubKey
           | None \<Rightarrow> Inl (New ''account does not provide a public key'')))"

subsection \<open>\<^verbatim>\<open>cmd/validator/depositdata/input.go\<close>\<close>

record dataIn =
  format :: string
  withdrawalCredentials :: bytes
  amount :: "64 word"
  validatorAccounts :: "account list"
  forkVersion :: bytes
  domain :: bytes

text \<open>
  \<^verbatim>\<open>input\<close> fills the fields of \<^verbatim>\<open>dataIn\<close> one after the other and returns at the first
  failure. The model has one definition for each field, in the order of the source,
  and \<open>input\<close> chains them.

  Lines 44 to 56: the validator accounts.
\<close>

definition validatorAccounts_of :: "env \<Rightarrow> error + account list" where
  "validatorAccounts_of env =
     (if GetString env ''validatoraccount'' = [] then Inl (New ''validator account is required'')
      else
        (case walletAndAccountsFromPath env (GetString env ''validatoraccount'') of
           Inl err \<Rightarrow> Inl (replace err ''failed to obtain validator account'')
         | Inr (wallet, accounts) \<Rightarrow>
             if length accounts = 0 then Inl (New ''unknown validator account'')
             else Inr accounts))"

text \<open>Lines 58 to 65.\<close>

definition format_of :: "env \<Rightarrow> string" where
  "format_of env =
     (if GetBool env ''launchpad'' then ''launchpad''
      else if GetBool env ''raw'' then ''raw''
      else ''json'')"

text \<open>
  Lines 67 to 97: the withdrawal credentials. The assignment to index 0 of line 97
  panics on an empty slice.
\<close>

definition withdrawalCredentials_of :: "env \<Rightarrow> error + bytes" where
  "withdrawalCredentials_of env =
     (case
        (if GetString env ''withdrawalaccount'' \<noteq> [] then
           (case walletAndAccountFromPath env (GetString env ''withdrawalaccount'') of
              Inl err \<Rightarrow> Inl (wrap err ''failed to obtain withdrawal account'')
            | Inr (wallet, withdrawalAccount) \<Rightarrow>
                (case bestPublicKey withdrawalAccount of
                   Inl err \<Rightarrow> Inl (wrap err ''failed to obtain public key for withdrawal account'')
                 | Inr pubKey \<Rightarrow> Inr (SHA256 (Marshal pubKey))))
         else if GetString env ''withdrawalpubkey'' \<noteq> [] then
           (case DecodeString (TrimPrefix (GetString env ''withdrawalpubkey'') ''0x'') of
              Inl err \<Rightarrow> Inl (wrap err ''failed to decode withdrawal public key'')
            | Inr withdrawalPubKeyBytes \<Rightarrow>
                if length withdrawalPubKeyBytes \<noteq> 48 then
                  Inl (New ''withdrawal public key must be exactly 48 bytes in length'')
                else
                  (case BLSPublicKeyFromBytes env withdrawalPubKeyBytes of
                     Inl err \<Rightarrow> Inl (Wrap (Ext err) ''withdrawal public key is not valid'')
                   | Inr withdrawalPubKey \<Rightarrow> Inr (SHA256 (Marshal withdrawalPubKey))))
         else Inl (New ''withdrawalaccount or withdrawal public key is required''))
      of
        Inl err \<Rightarrow> Inl err
      | Inr credentials \<Rightarrow>
          if credentials = [] then Inl (Panic ''index out of range [0] with length 0'')
          else Inr (credentials[0 := 0]))"

text \<open>Lines 99 to 109: the amount, in GWei.\<close>

definition amount_of :: "env \<Rightarrow> error + 64 word" where
  "amount_of env =
     (if GetString env ''depositvalue'' = [] then Inl (New ''deposit value is required'')
      else
        (case StringToGWei env (GetString env ''depositvalue'') of
           Inl err \<Rightarrow> Inl (Wrap (Ext err) ''deposit value is invalid'')
         | Inr gwei \<Rightarrow>
             if gwei < 1000000000 then Inl (New ''deposit value must be at least 1 Ether'')
             else Inr gwei))"

text \<open>
  Lines 111 to 133: the fork version. The second component of the result lists the
  calls made to the beacon node, in order.
\<close>

datatype call = CallConnect | CallFetchChainConfig ClientConn

text \<open>The message of line 126.\<close>

definition could_not_connect :: string where
  "could_not_connect =
     ''could not connect to beacon node; supply a connection with --connection ''
     @ ''or provide a fork version with --forkversion to generate deposit data''"

definition forkVersion_of :: "env \<Rightarrow> (error + bytes) \<times> call list" where
  "forkVersion_of env =
     (if GetString env ''forkversion'' \<noteq> [] then
        (case DecodeString (TrimPrefix (GetString env ''forkversion'') ''0x'') of
           Inl err \<Rightarrow> (Inl (wrap err ''failed to decode fork version''), [])
         | Inr version \<Rightarrow>
             if length version \<noteq> 4 then
               (Inl (New ''fork version must be exactly 4 bytes in length''), [])
             else (Inr version, []))
      else
        (case Connect env of
           Inl err \<Rightarrow> (Inl (Wrap (Ext err) ''failed to connect to beacon node''), [CallConnect])
         | Inr conn \<Rightarrow>
             (case FetchChainConfig env conn of
                Inl err \<Rightarrow>
                  (Inl (Wrap (Ext err) could_not_connect),
                   [CallConnect, CallFetchChainConfig conn])
              | Inr config \<Rightarrow>
                  (case config ''GenesisForkVersion'' of
                     None \<Rightarrow>
                       (Inl (New ''failed to obtain genesis fork version''),
                        [CallConnect, CallFetchChainConfig conn])
                   | Some (Bytes genesisForkVersion) \<Rightarrow>
                       (Inr genesisForkVersion, [CallConnect, CallFetchChainConfig conn])
                   | Some Other \<Rightarrow>
                       (Inl (Panic ''interface conversion: interface {} is not []uint8''),
                        [CallConnect, CallFetchChainConfig conn])))))"

text \<open>
  \<^verbatim>\<open>input\<close>: the result, and the calls made to the beacon node.
\<close>

definition input :: "env \<Rightarrow> (error + dataIn) \<times> call list" where
  "input env =
     (case validatorAccounts_of env of
        Inl err \<Rightarrow> (Inl err, [])
      | Inr accounts \<Rightarrow>
          (case withdrawalCredentials_of env of
             Inl err \<Rightarrow> (Inl err, [])
           | Inr credentials \<Rightarrow>
               (case amount_of env of
                  Inl err \<Rightarrow> (Inl err, [])
                | Inr gwei \<Rightarrow>
                    (case forkVersion_of env of
                       (Inl err, calls) \<Rightarrow> (Inl err, calls)
                     | (Inr version, calls) \<Rightarrow>
                         (case Domain DomainDeposit version ZeroGenesisValidatorsRoot of
                            Inl err \<Rightarrow> (Inl err, calls)
                          | Inr d \<Rightarrow>
                              (Inr \<lparr>format = format_of env,
                                    withdrawalCredentials = credentials,
                                    amount = gwei,
                                    validatorAccounts = accounts,
                                    forkVersion = version,
                                    domain = d\<rparr>, calls))))))"

subsection \<open>What an error advises\<close>

text \<open>
  The specification asks that the error for an unavailable chain configuration advises
  a connection or an explicit fork version. An error advises this when its message, or
  the message of an error it wraps, names both flags.
\<close>

definition names_both_flags :: "string \<Rightarrow> bool" where
  "names_both_flags m = (Contains m ''--connection'' \<and> Contains m ''--forkversion'')"

fun advises :: "error \<Rightarrow> bool" where
  "advises (New m) = names_both_flags m"
| "advises (Wrap e m) = (names_both_flags m \<or> advises e)"
| "advises (Ext m) = names_both_flags m"
| "advises e = False"

subsection \<open>An environment to run the model in\<close>

text \<open>
  A store with one wallet, \<^verbatim>\<open>wallet\<close>, whose channel yields the accounts \<^verbatim>\<open>B\<close>,
  \<^verbatim>\<open>Withdrawal\<close> and \<^verbatim>\<open>A\<close> in this order. A path is cut at its first \<^verbatim>\<open>/\<close>. The
  settings, the result of the connection and the chain configuration are parameters.
\<close>

definition example_names :: "string \<Rightarrow> string + (string \<times> string)" where
  "example_names path =
     (if path = [] then Inl ''invalid account format''
      else Inr (takeWhile (\<lambda>c. c \<noteq> CHR ''/'') path,
                drop 1 (dropWhile (\<lambda>c. c \<noteq> CHR ''/'') path)))"

definition example_key :: bytes where
  "example_key = [0xa9, 0x9a, 0x76, 0xed, 0x77, 0x96, 0xf7, 0xbe, 0x22, 0xd5, 0xb7, 0xe8,
                  0x5d, 0xee, 0xb7, 0xc5, 0x67, 0x7e, 0x88, 0xe5, 0x11, 0xe0, 0xb3, 0x37,
                  0x61, 0x8f, 0x8c, 0x4e, 0xb6, 0x13, 0x49, 0xb4, 0xbf, 0x2d, 0x15, 0x3f,
                  0x64, 0x9f, 0x7b, 0x53, 0x35, 0x9f, 0xe8, 0xb9, 0x4a, 0x38, 0xe4, 0x4c]"

definition example_hex :: string where
  "example_hex = ''0xa99a76ed7796f7be22d5b7e85deeb7c5677e88e511e0b337618f8c4eb61349b4bf2d153f649f7b53359fe8b94a38e44c''"

definition account_A :: account where
  "account_A = \<lparr>Name = ''A'', CompositePublicKey = None,
                 PublicKey = Some \<lparr>Marshal = replicate 48 1\<rparr>\<rparr>"

definition account_B :: account where
  "account_B = \<lparr>Name = ''B'', CompositePublicKey = None,
                 PublicKey = Some \<lparr>Marshal = replicate 48 2\<rparr>\<rparr>"

definition account_W :: account where
  "account_W = \<lparr>Name = ''Withdrawal'',
                 CompositePublicKey = Some \<lparr>Marshal = example_key\<rparr>,
                 PublicKey = Some \<lparr>Marshal = replicate 48 3\<rparr>\<rparr>"

definition example_wallet :: wallet where
  "example_wallet =
     \<lparr>Type = ''non-deterministic'',
      Accounts = [account_B, account_W, account_A],
      AccountByName = Some (\<lambda>unlocked name.
         case find (\<lambda>a. Name a = name) [account_B, account_W, account_A] of
           None \<Rightarrow> Inl ''no account with name''
         | Some a \<Rightarrow> Inr a),
      Locker = None\<rparr>"

definition example_settings :: "string \<Rightarrow> string" where
  "example_settings =
     (\<lambda>k. [])(''validatoraccount'' := ''wallet/.'',
             ''withdrawalaccount'' := ''wallet/Withdrawal'',
             ''depositvalue'' := ''32 Ether'',
             ''forkversion'' := ''0x00000001'')"

definition example_gwei :: "string \<Rightarrow> string + 64 word" where
  "example_gwei s =
     (if s = ''32 Ether'' then Inr 32000000000
      else if s = ''1 Ether'' then Inr 1000000000
      else if s = ''0.999999999 Ether'' then Inr 999999999
      else Inl ''failed to parse'')"

definition example_env ::
  "(string \<Rightarrow> string) \<Rightarrow> string + ClientConn \<Rightarrow> string + (string \<rightharpoonup> config_value) \<Rightarrow> env" where
  "example_env settings conn config =
     \<lparr>GetString = settings,
      GetBool = (\<lambda>k. False),
      getWalletPassphrase = [],
      WalletAndAccountNames = example_names,
      OpenWallet = (\<lambda>name. if name = ''wallet'' then Inr example_wallet
                             else Inl ''wallet not found''),
      ComposeCredentials = (\<lambda>cert key ca. Inl ''no credentials''),
      dirk_OpenWallet = (\<lambda>name credentials endpoints. Inl ''no remote wallet''),
      BLSPublicKeyFromBytes = (\<lambda>bs. if length bs = 48 then Inr \<lparr>Marshal = bs\<rparr>
                                      else Inl ''invalid public key''),
      StringToGWei = example_gwei,
      Connect = conn,
      FetchChainConfig = (\<lambda>c. config)\<rparr>"


text \<open>A second public key in hexadecimal, 48 bytes \<^verbatim>\<open>0xb0\<close>.\<close>

definition other_hex :: string where
  "other_hex = ''0xb0b0b0b0b0b0b0b0b0b0b0b0b0b0b0b0b0b0b0b0b0b0b0b0b0b0b0b0b0b0b0b0b0b0b0b0b0b0b0b0b0b0b0b0b0b0b0b0''"

text \<open>A wallet for the account specification \<^verbatim>\<open>a|b\<close>.\<close>

definition named :: "string \<Rightarrow> account" where
  "named n = \<lparr>Name = n, CompositePublicKey = None, PublicKey = None\<rparr>"

definition alt_wallet :: wallet where
  "alt_wallet =
     \<lparr>Type = ''non-deterministic'',
      Accounts = [named ''xb'', named ''c'', named ''ax'', named ''a''],
      AccountByName = None,
      Locker = None\<rparr>"

definition alt_env :: env where
  "alt_env =
     (example_env (\<lambda>k. []) (Inl ''no connection'') (Inl ''no connection''))
       \<lparr>OpenWallet := (\<lambda>name. Inr alt_wallet)\<rparr>"

text \<open>What \<open>input\<close> returns in the environment with \<open>example_settings\<close>.\<close>

definition example_data :: dataIn where
  "example_data =
     \<lparr>format = ''json'',
      withdrawalCredentials = (SHA256 example_key)[0 := 0],
      amount = 32000000000,
      validatorAccounts = [account_A, account_B],
      forkVersion = [0, 0, 0, 1],
      domain = DomainDeposit
        @ take 28 (SHA256 ([0, 0, 0, 1] @ replicate 28 0 @ ZeroGenesisValidatorsRoot))\<rparr>"

section \<open>Properties of the model\<close>

subsection \<open>SHA-256 and the domain\<close>

lemma length_sha_round: "length st = 8 \<Longrightarrow> length (sha_round k w st) = 8"
proof -
  assume "length st = 8"
  then obtain a b c d e f g h where "st = [a, b, c, d, e, f, g, h]"
    by (auto simp: length_Suc_conv eval_nat_numeral)
  then show ?thesis by (simp add: Let_def)
qed

lemma length_sha_rounds: "length st = 8 \<Longrightarrow> length (sha_rounds ks ws st) = 8"
  by (induction ks arbitrary: ws st) (simp_all add: length_sha_round)

lemma length_sha_block: "length hs = 8 \<Longrightarrow> length (sha_block hs blk) = 8"
  by (simp add: sha_block_def length_sha_rounds)

lemma length_sha_blocks: "length hs = 8 \<Longrightarrow> length (sha_blocks n hs bs) = 8"
  by (induction n arbitrary: hs bs) (simp_all add: length_sha_block)

lemma length_concat_bytes_of_u32: "length (concat (map bytes_of_u32 ws)) = 4 * length ws"
  by (induction ws) (simp_all add: bytes_of_u32_def)

lemma length_SHA256: "length (SHA256 m) = 32"
  by (simp add: SHA256_def Let_def length_concat_bytes_of_u32 length_sha_blocks H256_def)

text \<open>The digest of the three bytes \<^verbatim>\<open>abc\<close>, as FIPS 180-4 gives it.\<close>

lemma SHA256_abc:
  "SHA256 [0x61, 0x62, 0x63] =
     [0xba, 0x78, 0x16, 0xbf, 0x8f, 0x01, 0xcf, 0xea, 0x41, 0x41, 0x40, 0xde,
      0x5d, 0xae, 0x22, 0x23, 0xb0, 0x03, 0x61, 0xa3, 0x96, 0x17, 0x7a, 0x9c,
      0xb4, 0x10, 0xff, 0x61, 0xf2, 0x00, 0x15, 0xad]"
  by code_simp

lemma SHA256_not_Nil: "SHA256 m \<noteq> []"
  using length_SHA256 [of m] by auto

lemma SHA256_prefix_zero:
  "length ((SHA256 P)[0 := 0]) = 32 \<and> (SHA256 P)[0 := 0] ! 0 = 0 \<and>
   (\<forall>i. 1 \<le> i \<and> i \<le> 31 \<longrightarrow> (SHA256 P)[0 := 0] ! i = SHA256 P ! i)"
  by (simp add: length_SHA256)

lemma length_Domain: "Domain t v r = Inr d \<Longrightarrow> length d = 32"
  by (auto simp: Domain_def length_SHA256 split: if_splits)

lemma Domain_not_New: "Domain t v r \<noteq> Inl (New m)"
  by (simp add: Domain_def)

subsection \<open>Errors that abort\<close>

lemma wrap_neq_New [simp]: "wrap err msg \<noteq> New m"
  by (cases err) (simp_all add: wrap_def)

lemma replace_eq_New: "replace err msg = New m \<Longrightarrow> m = msg"
  by (cases err) (simp_all add: replace_def)

subsection \<open>The stages of \<open>input\<close>\<close>

lemma input_Inr:
  assumes "fst (input env) = Inr d"
  shows "validatorAccounts_of env = Inr (validatorAccounts d)"
    and "withdrawalCredentials_of env = Inr (withdrawalCredentials d)"
    and "amount_of env = Inr (amount d)"
    and "fst (forkVersion_of env) = Inr (forkVersion d)"
    and "Domain DomainDeposit (forkVersion d) ZeroGenesisValidatorsRoot = Inr (domain d)"
    and "format d = format_of env"
  using assms by (auto simp: input_def split: sum.splits prod.splits)

lemma input_stages:
  assumes "validatorAccounts_of env = Inr accts"
    and "withdrawalCredentials_of env = Inr wc"
    and "amount_of env = Inr g"
  shows "input env =
     (case forkVersion_of env of
        (Inl err, calls) \<Rightarrow> (Inl err, calls)
      | (Inr version, calls) \<Rightarrow>
          (case Domain DomainDeposit version ZeroGenesisValidatorsRoot of
             Inl err \<Rightarrow> (Inl err, calls)
           | Inr d \<Rightarrow>
               (Inr \<lparr>format = format_of env, withdrawalCredentials = wc, amount = g,
                     validatorAccounts = accts, forkVersion = version, domain = d\<rparr>, calls)))"
  using assms by (simp add: input_def)

text \<open>The error of \<open>input\<close> is the error of the first stage that fails.\<close>

lemma input_Inl:
  assumes "fst (input env) = Inl e"
  shows "validatorAccounts_of env = Inl e
    \<or> (\<exists>accts. validatorAccounts_of env = Inr accts) \<and>
      (withdrawalCredentials_of env = Inl e
       \<or> (\<exists>wc. withdrawalCredentials_of env = Inr wc) \<and>
         (amount_of env = Inl e
          \<or> (\<exists>g. amount_of env = Inr g) \<and>
            (fst (forkVersion_of env) = Inl e
             \<or> (\<exists>v. fst (forkVersion_of env) = Inr v
                    \<and> Domain DomainDeposit v ZeroGenesisValidatorsRoot = Inl e))))"
  using assms by (auto simp: input_def split: sum.splits prod.splits)

lemma input_calls:
  "snd (input env) = [] \<or> snd (input env) = snd (forkVersion_of env)"
  by (auto simp: input_def split: sum.splits prod.splits)

lemma validatorAccounts_of_New:
  "validatorAccounts_of env = Inl (New m) \<Longrightarrow>
   m = ''validator account is required'' \<or> m = ''failed to obtain validator account''
   \<or> m = ''unknown validator account''"
  by (auto simp: validatorAccounts_of_def split: if_splits sum.splits dest: replace_eq_New)

lemma withdrawalCredentials_of_New:
  "withdrawalCredentials_of env = Inl (New m) \<Longrightarrow>
   GetString env ''withdrawalaccount'' = [] \<and>
   (m = ''withdrawal public key must be exactly 48 bytes in length'' \<and>
      GetString env ''withdrawalpubkey'' \<noteq> []
    \<or> m = ''withdrawalaccount or withdrawal public key is required'' \<and>
      GetString env ''withdrawalpubkey'' = [])"
  by (auto simp: withdrawalCredentials_of_def split: if_splits sum.splits)

lemma amount_of_New:
  "amount_of env = Inl (New m) \<Longrightarrow>
   m = ''deposit value is required'' \<or> m = ''deposit value must be at least 1 Ether''"
  by (auto simp: amount_of_def split: if_splits sum.splits)

lemma forkVersion_of_New:
  "fst (forkVersion_of env) = Inl (New m) \<Longrightarrow>
   m = ''fork version must be exactly 4 bytes in length''
   \<or> m = ''failed to obtain genesis fork version''"
  by (auto simp: forkVersion_of_def split: if_splits sum.splits option.splits config_value.splits)

lemma forkVersion_of_explicit:
  assumes "GetString env ''forkversion'' \<noteq> []"
  shows "snd (forkVersion_of env) = []"
    and "fst (forkVersion_of env) = Inr v \<Longrightarrow>
         DecodeString (TrimPrefix (GetString env ''forkversion'') ''0x'') = Inr v \<and> length v = 4"
  using assms by (auto simp: forkVersion_of_def split: sum.splits if_splits)

lemma withdrawalCredentials_of_ignores_pubkey:
  assumes "GetString env ''withdrawalaccount'' \<noteq> []"
  shows "withdrawalCredentials_of (env\<lparr>GetString := (GetString env)(''withdrawalpubkey'' := v)\<rparr>)
       = withdrawalCredentials_of env"
proof -
  let ?env = "env\<lparr>GetString := (GetString env)(''withdrawalpubkey'' := v)\<rparr>"
  have "walletFromPath ?env p = walletFromPath env p" for p
    by (simp add: walletFromPath_def cong: sum.case_cong prod.case_cong if_cong)
  then have "walletAndAccountFromPath ?env p = walletAndAccountFromPath env p" for p
    by (simp add: walletAndAccountFromPath_def
        cong: sum.case_cong prod.case_cong option.case_cong if_cong)
  with assms show ?thesis
    by (simp add: withdrawalCredentials_of_def)
qed

subsection \<open>The accounts that match\<close>

lemma walletAndAccountsFromPath_Inr_ex:
  assumes "walletAndAccountsFromPath env path = Inr (w, accts)"
  shows "\<exists>walletName accountSpec re.
    walletFromPath env path = Inr w \<and>
    WalletAndAccountNames env path = Inr (walletName, accountSpec) \<and>
    MustCompile (if accountSpec = [] then ''^.*$'' else ''^'' @ accountSpec @ ''$'') = Inr re \<and>
    accts = sort_key Name (filter (\<lambda>account. Match re (Name account)) (Accounts w))"
proof (cases "walletFromPath env path")
  case (Inl e)
  with assms show ?thesis
    by (simp add: walletAndAccountsFromPath_def)
next
  case w: (Inr w0)
  show ?thesis
  proof (cases "WalletAndAccountNames env path")
    case (Inl e)
    with assms w show ?thesis
      by (simp add: walletAndAccountsFromPath_def)
  next
    case n: (Inr p)
    obtain wn sp where p: "p = (wn, sp)"
      by (cases p)
    show ?thesis
    proof (cases "MustCompile (if sp = [] then ''^.*$'' else ''^'' @ sp @ ''$'')")
      case (Inl e)
      with assms w n p show ?thesis
        by (simp add: walletAndAccountsFromPath_def)
    next
      case (Inr re)
      with assms w n p show ?thesis
        by (auto simp: walletAndAccountsFromPath_def)
    qed
  qed
qed

lemma walletAndAccountsFromPath_Inr:
  assumes "walletAndAccountsFromPath env path = Inr (w, accts)"
  obtains walletName accountSpec re where
    "walletFromPath env path = Inr w"
    "WalletAndAccountNames env path = Inr (walletName, accountSpec)"
    "MustCompile (if accountSpec = [] then ''^.*$'' else ''^'' @ accountSpec @ ''$'') = Inr re"
    "accts = sort_key Name (filter (\<lambda>account. Match re (Name account)) (Accounts w))"
  using walletAndAccountsFromPath_Inr_ex [OF assms] by blast

lemma sorted_same_mset:
  fixes xs ys :: "'a :: linorder list"
  assumes "sorted xs" and "sorted ys" and "mset xs = mset ys"
  shows "xs = ys"
proof -
  have "sort xs = ys"
    by (rule properties_for_sort) (simp_all only: assms)
  moreover have "sort xs = xs"
    by (rule sorted_sort_id) (rule assms(1))
  ultimately show ?thesis
    by simp
qed

lemma names_of_sorted_matches:
  assumes "mset xs = mset ys"
  shows "map Name (sort_key Name (filter P xs)) = map Name (sort_key Name (filter P ys))"
proof (rule sorted_same_mset)
  show "sorted (map Name (sort_key Name (filter P xs)))"
    by (rule sorted_sort_key)
  show "sorted (map Name (sort_key Name (filter P ys)))"
    by (rule sorted_sort_key)
  have "mset (filter P xs) = mset (filter P ys)"
    by (simp only: mset_filter assms)
  then have "image_mset Name (mset (filter P xs)) = image_mset Name (mset (filter P ys))"
    by (rule arg_cong)
  then show "mset (map Name (sort_key Name (filter P xs)))
      = mset (map Name (sort_key Name (filter P ys)))"
    by (simp only: mset_map mset_sort)
qed

subsection \<open>Regular expressions\<close>

lemma compile_dot: "MustCompile ''^.$'' = Inr (OpConcat [OpBeginText, OpAnyCharNotNL, OpEndText])"
  by code_simp

lemma match_dot:
  "Match (OpConcat [OpBeginText, OpAnyCharNotNL, OpEndText]) ''A''"
  "Match (OpConcat [OpBeginText, OpAnyCharNotNL, OpEndText]) ''B''"
  "\<not> Match (OpConcat [OpBeginText, OpAnyCharNotNL, OpEndText]) ''Withdrawal''"
  by code_simp+

lemma compile_x: "MustCompile ''^x$'' = Inr (OpConcat [OpBeginText, OpLiteral ''x'', OpEndText])"
  by code_simp

lemma match_x:
  "\<not> Match (OpConcat [OpBeginText, OpLiteral ''x'', OpEndText]) ''A''"
  "\<not> Match (OpConcat [OpBeginText, OpLiteral ''x'', OpEndText]) ''B''"
  "\<not> Match (OpConcat [OpBeginText, OpLiteral ''x'', OpEndText]) ''Withdrawal''"
  by code_simp+

lemma compile_alt:
  "MustCompile ''^a|b$'' =
     Inr (OpAlternate [OpConcat [OpBeginText, OpLiteral ''a''],
                       OpConcat [OpLiteral ''b'', OpEndText]])"
  by code_simp

lemma match_alt:
  "Match (OpAlternate [OpConcat [OpBeginText, OpLiteral ''a''],
                       OpConcat [OpLiteral ''b'', OpEndText]]) ''xb''"
  "\<not> Match (OpAlternate [OpConcat [OpBeginText, OpLiteral ''a''],
                       OpConcat [OpLiteral ''b'', OpEndText]]) ''c''"
  "Match (OpAlternate [OpConcat [OpBeginText, OpLiteral ''a''],
                       OpConcat [OpLiteral ''b'', OpEndText]]) ''ax''"
  "Match (OpAlternate [OpConcat [OpBeginText, OpLiteral ''a''],
                       OpConcat [OpLiteral ''b'', OpEndText]]) ''a''"
  by code_simp+

text \<open>
  What does hold of the pattern: it is the account specification between \<^verbatim>\<open>^\<close> and
  \<^verbatim>\<open>$\<close>, or \<^verbatim>\<open>^.*$\<close> for an empty specification, and the accounts returned are those
  whose name contains a match of it (lemma \<open>walletAndAccountsFromPath_Inr\<close>). With an
  empty specification every account is returned whose name has no line feed, which
  \<^verbatim>\<open>.\<close> does not match.
\<close>

lemma compile_default:
  "MustCompile ''^.*$'' = Inr (OpConcat [OpBeginText, OpStar OpAnyCharNotNL, OpEndText])"
  by code_simp

lemma decode_bytes:
  "(r, w) \<in> set (decode b) \<Longrightarrow> r = RuneError \<or> set r \<subseteq> set b"
proof (induction b arbitrary: r w rule: decode.induct)
  case 1
  then show ?case by simp
next
  case (2 c s)
  from "2.prems" consider "(r, w) = DecodeRune (c # s)"
    | "(r, w) \<in> set (decode (drop (snd (DecodeRune (c # s)) - 1) s))"
    by auto
  then show ?case
  proof cases
    case 1
    then show ?thesis
      by (auto simp: DecodeRune_def split: option.splits dest: in_set_takeD)
  next
    case 2
    from "2.IH" [OF this] show ?thesis
      by (auto dest: in_set_dropD)
  qed
qed

lemma runes_no_line_feed:
  assumes "CHR 0x0A \<notin> set b"
  shows "[CHR 0x0A] \<notin> set (runes b)"
proof
  assume "[CHR 0x0A] \<in> set (runes b)"
  then obtain w where "([CHR 0x0A], w) \<in> set (decode b)"
    by (auto simp: runes_def)
  from decode_bytes [OF this] assms show False
    by (auto simp: RuneError_def)
qed

lemma closure_Suc: "closure f (Suc j) ps = remdups (closure f j ps @ f (closure f j ps))"
  by (simp add: closure_def)

lemma closure_reaches:
  assumes "\<forall>i < length t. t ! i \<noteq> [CHR 0x0A]"
  shows "k \<le> j \<Longrightarrow> k \<le> length t \<Longrightarrow>
         k \<in> set (closure (ends OpAnyCharNotNL t) j [0])"
proof (induction j arbitrary: k)
  case 0
  then show ?case by (simp add: closure_def)
next
  case (Suc j)
  let ?S = "closure (ends OpAnyCharNotNL t) j [0]"
  show ?case
  proof (cases "k \<le> j")
    case True
    with Suc.IH [of k] Suc.prems have "k \<in> set ?S"
      by blast
    then show ?thesis
      by (simp only: closure_Suc set_remdups set_append Un_iff) simp
  next
    case False
    with Suc.prems have k: "k = Suc j" and j: "j < length t"
      by simp_all
    from Suc.IH [of j] j have "j \<in> set ?S"
      by (meson less_or_eq_imp_le order_refl)
    with j assms have "j \<in> set (filter (\<lambda>i. i < length t \<and> t ! i \<noteq> [CHR 0x0A]) ?S)"
      by simp
    then have "Suc j \<in> set (map Suc (filter (\<lambda>i. i < length t \<and> t ! i \<noteq> [CHR 0x0A]) ?S))"
      by (simp only: set_map image_eqI)
    then have "Suc j \<in> set (ends OpAnyCharNotNL t ?S)"
      by (simp only: ends.simps)
    with k show ?thesis
      by (simp only: closure_Suc set_remdups set_append Un_iff) simp
  qed
qed

lemma filter_zero_upt: "filter (\<lambda>i. i = 0) [0 ..< Suc n] = [0]"
proof -
  have "[0 ..< Suc n] = 0 # [Suc 0 ..< Suc n]"
    by (simp add: upt_rec)
  moreover have "filter (\<lambda>i. i = 0) [Suc 0 ..< Suc n] = []"
    by (auto simp: filter_empty_conv)
  ultimately show ?thesis
    by (simp del: upt_Suc)
qed

lemma match_default:
  assumes "CHR 0x0A \<notin> set b"
  shows "Match (OpConcat [OpBeginText, OpStar OpAnyCharNotNL, OpEndText]) b"
proof -
  let ?t = "runes b"
  from runes_no_line_feed [OF assms] have "\<forall>i < length ?t. ?t ! i \<noteq> [CHR 0x0A]"
    by (metis nth_mem)
  from closure_reaches [OF this, of "length ?t" "Suc (length ?t)"]
  have "length ?t \<in> set (closure (ends OpAnyCharNotNL ?t) (Suc (length ?t)) [0])"
    by simp
  then have "filter (\<lambda>i. i = length ?t)
      (closure (ends OpAnyCharNotNL ?t) (Suc (length ?t)) [0]) \<noteq> []"
    by (auto simp: filter_empty_conv)
  moreover have "ends (OpConcat [OpBeginText, OpStar OpAnyCharNotNL, OpEndText]) ?t
        [0 ..< Suc (length ?t)]
      = filter (\<lambda>i. i = length ?t)
          (closure (ends OpAnyCharNotNL ?t) (Suc (length ?t)) [0])"
    by (simp add: filter_zero_upt del: upt_Suc ends.simps(3))
  ultimately show ?thesis
    by (simp add: Match_def Let_def del: upt_Suc)
qed

lemma default_pattern_selects:
  assumes "walletFromPath env path = Inr w"
    and "WalletAndAccountNames env path = Inr (walletName, [])"
  shows "\<exists>accts. walletAndAccountsFromPath env path = Inr (w, accts) \<and>
           (\<forall>a \<in> set (Accounts w). CHR 0x0A \<notin> set (Name a) \<longrightarrow> a \<in> set accts)"
  using assms by (simp add: walletAndAccountsFromPath_def compile_default match_default)

subsection \<open>Runs in the example environment\<close>

lemma example_names_simps:
  "example_names ''wallet/.'' = Inr (''wallet'', ''.'')"
  "example_names ''wallet/Withdrawal'' = Inr (''wallet'', ''Withdrawal'')"
  by (simp_all add: example_names_def)

lemma alt_names: "example_names ''wallet/a|b'' = Inr (''wallet'', ''a|b'')"
  by (simp add: example_names_def)

lemma example_env_sel:
  "GetString (example_env settings conn config) = settings"
  "GetBool (example_env settings conn config) = (\<lambda>k. False)"
  "getWalletPassphrase (example_env settings conn config) = []"
  "WalletAndAccountNames (example_env settings conn config) = example_names"
  "OpenWallet (example_env settings conn config) ''wallet'' = Inr example_wallet"
  "BLSPublicKeyFromBytes (example_env settings conn config) =
     (\<lambda>bs. if length bs = 48 then Inr \<lparr>Marshal = bs\<rparr> else Inl ''invalid public key'')"
  "StringToGWei (example_env settings conn config) = example_gwei"
  "Connect (example_env settings conn config) = conn"
  "FetchChainConfig (example_env settings conn config) = (\<lambda>c. config)"
  by (simp_all add: example_env_def)

lemma alt_env_sel:
  "GetString alt_env = (\<lambda>k. [])"
  "WalletAndAccountNames alt_env = example_names"
  "OpenWallet alt_env = (\<lambda>name. Inr alt_wallet)"
  by (simp_all add: alt_env_def example_env_sel)

lemma example_settings_simps:
  "example_settings ''remote'' = []"
  "example_settings ''validatoraccount'' = ''wallet/.''"
  "example_settings ''withdrawalaccount'' = ''wallet/Withdrawal''"
  "example_settings ''withdrawalpubkey'' = []"
  "example_settings ''depositvalue'' = ''32 Ether''"
  "example_settings ''forkversion'' = ''0x00000001''"
  by (simp_all add: example_settings_def)

lemma example_walletFromPath:
  "settings ''remote'' = [] \<Longrightarrow>
   walletFromPath (example_env settings conn config) ''wallet/.'' = Inr example_wallet"
  "settings ''remote'' = [] \<Longrightarrow>
   walletFromPath (example_env settings conn config) ''wallet/Withdrawal'' = Inr example_wallet"
  by (simp_all add: walletFromPath_def example_env_sel example_names_simps)

lemma example_walletAndAccountsFromPath:
  "settings ''remote'' = [] \<Longrightarrow>
   walletAndAccountsFromPath (example_env settings conn config) ''wallet/.''
     = Inr (example_wallet, [account_A, account_B])"
  by (simp add: walletAndAccountsFromPath_def example_walletFromPath example_env_sel
      example_names_simps compile_dot)
     (simp add: example_wallet_def match_dot account_A_def account_B_def account_W_def)

lemma example_no_account:
  "settings ''remote'' = [] \<Longrightarrow>
   walletAndAccountsFromPath (example_env settings conn config) ''wallet/x''
     = Inr (example_wallet, [])"
  by (simp add: walletAndAccountsFromPath_def walletFromPath_def example_env_sel
      example_names_def compile_x)
     (simp add: example_wallet_def match_x account_A_def account_B_def account_W_def)

lemma example_walletFromPath_reordered:
  "settings ''remote'' = [] \<Longrightarrow>
   walletFromPath
     ((example_env settings conn config)
        \<lparr>OpenWallet := (\<lambda>name. Inr (example_wallet\<lparr>Accounts := [account_A, account_W, account_B]\<rparr>))\<rparr>)
     ''wallet/.''
     = Inr (example_wallet\<lparr>Accounts := [account_A, account_W, account_B]\<rparr>)"
  by (simp add: walletFromPath_def example_env_sel example_names_simps)

lemma sort_example_matches:
  "sort_key Name (filter (\<lambda>account. Match (OpConcat [OpBeginText, OpAnyCharNotNL, OpEndText])
      (Name account)) [account_A, account_W, account_B]) = [account_A, account_B]"
  by (simp add: match_dot account_A_def account_B_def account_W_def)

lemma example_walletAndAccountsFromPath_reordered:
  assumes "settings ''remote'' = []"
  shows "walletAndAccountsFromPath
     ((example_env settings conn config)
        \<lparr>OpenWallet := (\<lambda>name. Inr (example_wallet\<lparr>Accounts := [account_A, account_W, account_B]\<rparr>))\<rparr>)
     ''wallet/.''
     = Inr (example_wallet\<lparr>Accounts := [account_A, account_W, account_B]\<rparr>, [account_A, account_B])"
proof -
  have "walletAndAccountsFromPath
     ((example_env settings conn config)
        \<lparr>OpenWallet := (\<lambda>name. Inr (example_wallet\<lparr>Accounts := [account_A, account_W, account_B]\<rparr>))\<rparr>)
     ''wallet/.''
     = Inr (example_wallet\<lparr>Accounts := [account_A, account_W, account_B]\<rparr>,
        sort_key Name (filter (\<lambda>account. Match (OpConcat [OpBeginText, OpAnyCharNotNL, OpEndText])
          (Name account)) [account_A, account_W, account_B]))"
    using assms
    by (simp add: walletAndAccountsFromPath_def example_walletFromPath_reordered example_env_sel
        example_names_simps compile_dot)
  then show ?thesis
    by (simp only: sort_example_matches)
qed

lemma sort_alt_matches:
  "sort_key Name (filter (\<lambda>account. Match (OpAlternate [OpConcat [OpBeginText, OpLiteral ''a''],
                       OpConcat [OpLiteral ''b'', OpEndText]]) (Name account))
      [named ''xb'', named ''c'', named ''ax'', named ''a''])
    = [named ''a'', named ''ax'', named ''xb'']"
  by (simp add: match_alt named_def)

lemma example_validatorAccounts:
  "settings ''remote'' = [] \<Longrightarrow> settings ''validatoraccount'' = ''wallet/.'' \<Longrightarrow>
   validatorAccounts_of (example_env settings conn config) = Inr [account_A, account_B]"
  by (simp add: validatorAccounts_of_def example_walletAndAccountsFromPath example_env_sel)

lemma example_walletAndAccountFromPath:
  "settings ''remote'' = [] \<Longrightarrow>
   walletAndAccountFromPath (example_env settings conn config) ''wallet/Withdrawal''
     = Inr (example_wallet, account_W)"
  by (simp add: walletAndAccountFromPath_def example_walletFromPath example_env_sel
      example_names_simps)
     (simp add: example_wallet_def accountByName_def account_A_def account_B_def account_W_def)

lemma example_withdrawalAccount:
  "settings ''remote'' = [] \<Longrightarrow> settings ''withdrawalaccount'' = ''wallet/Withdrawal'' \<Longrightarrow>
   withdrawalCredentials_of (example_env settings conn config) = Inr ((SHA256 example_key)[0 := 0])"
  by (simp add: withdrawalCredentials_of_def example_env_sel example_walletAndAccountFromPath
      bestPublicKey_def account_W_def SHA256_not_Nil)

lemma decode_example_hex: "DecodeString (TrimPrefix example_hex ''0x'') = Inr example_key"
  by (simp add: example_hex_def TrimPrefix_def HasPrefix_def fromHexChar_def example_key_def)

lemma decode_other_hex: "DecodeString (TrimPrefix other_hex ''0x'') = Inr (replicate 48 0xb0)"
  by (simp add: other_hex_def TrimPrefix_def HasPrefix_def fromHexChar_def eval_nat_numeral)

lemma example_withdrawalPubKey:
  "settings ''withdrawalaccount'' = [] \<Longrightarrow> settings ''withdrawalpubkey'' = example_hex \<Longrightarrow>
   withdrawalCredentials_of (example_env settings conn config) = Inr ((SHA256 example_key)[0 := 0])"
  by (simp add: withdrawalCredentials_of_def example_env_sel decode_example_hex SHA256_not_Nil)
     (simp add: example_hex_def example_key_def)

lemma example_amount:
  "settings ''depositvalue'' = ''32 Ether'' \<Longrightarrow>
   amount_of (example_env settings conn config) = Inr 32000000000"
  by (simp add: amount_of_def example_env_sel example_gwei_def)

lemma example_amount_one:
  "settings ''depositvalue'' = ''1 Ether'' \<Longrightarrow>
   amount_of (example_env settings conn config) = Inr 1000000000"
  by (simp add: amount_of_def example_env_sel example_gwei_def)

lemma example_amount_low:
  "settings ''depositvalue'' = ''0.999999999 Ether'' \<Longrightarrow>
   amount_of (example_env settings conn config)
     = Inl (New ''deposit value must be at least 1 Ether'')"
  by (simp add: amount_of_def example_env_sel example_gwei_def)

lemma example_forkVersion:
  "settings ''forkversion'' = ''0x00000001'' \<Longrightarrow>
   forkVersion_of (example_env settings conn config) = (Inr [0, 0, 0, 1], [])"
  by (simp add: forkVersion_of_def example_env_sel TrimPrefix_def HasPrefix_def fromHexChar_def)

lemma example_input:
  "fst (input (example_env example_settings conn config)) = Inr example_data"
  by (simp add: input_def example_validatorAccounts example_withdrawalAccount example_amount
      example_forkVersion example_settings_simps Domain_def DomainDeposit_def
      ZeroGenesisValidatorsRoot_def format_of_def example_env_sel example_data_def)

lemma could_not_connect_advises: "names_both_flags could_not_connect"
  by code_simp

lemma failed_to_connect_no_advice: "\<not> names_both_flags ''failed to connect to beacon node''"
  by code_simp

lemma no_connection_no_advice: "\<not> names_both_flags ''no connection''"
  by code_simp

section \<open>The claims\<close>

subsection \<open>C1: the withdrawal credentials\<close>

text \<open>
  C1. Let \<open>P\<close> be the serialisation of the withdrawal public key: the best public key
  of the withdrawal account when a withdrawal account is given and resolves, or else
  the key that the 48 bytes of the hexadecimal string of the setting
  \<^verbatim>\<open>withdrawalpubkey\<close> deserialise to. Then the withdrawal credentials are computed, and
  are the SHA-256 of \<open>P\<close> with byte 0 set to \<open>0x00\<close>; in every result of \<open>input\<close> they have
  32 bytes, byte 0 is \<open>0x00\<close> and bytes 1 to 31 are those of the SHA-256 of \<open>P\<close>.
\<close>

theorem withdrawal_credentials_sha256:
  assumes "GetString env ''withdrawalaccount'' \<noteq> []
        \<and> walletAndAccountFromPath env (GetString env ''withdrawalaccount'') = Inr (w, a)
        \<and> bestPublicKey a = Inr pk
      \<or> GetString env ''withdrawalaccount'' = []
        \<and> GetString env ''withdrawalpubkey'' \<noteq> []
        \<and> DecodeString (TrimPrefix (GetString env ''withdrawalpubkey'') ''0x'') = Inr bs
        \<and> length bs = 48
        \<and> BLSPublicKeyFromBytes env bs = Inr pk"
    and "Marshal pk = P"
  shows "withdrawalCredentials_of env = Inr ((SHA256 P)[0 := 0]) \<and>
         (\<forall>d. fst (input env) = Inr d \<longrightarrow>
            length (withdrawalCredentials d) = 32 \<and> withdrawalCredentials d ! 0 = 0 \<and>
            (\<forall>i. 1 \<le> i \<and> i \<le> 31 \<longrightarrow> withdrawalCredentials d ! i = SHA256 P ! i))"
proof -
  from assms have c: "withdrawalCredentials_of env = Inr ((SHA256 P)[0 := 0])"
    by (auto simp: withdrawalCredentials_of_def SHA256_not_Nil)
  have "withdrawalCredentials d = (SHA256 P)[0 := 0]" if "fst (input env) = Inr d" for d
    using input_Inr(2) [OF that] c by simp
  with c SHA256_prefix_zero [of P] show ?thesis
    by metis
qed

theorem withdrawal_credentials_sha256_witness:
  "GetString (example_env example_settings (Inl ''no connection'') (Inl ''no connection''))
       ''withdrawalaccount'' = ''wallet/Withdrawal'' \<and>
   walletAndAccountFromPath
       (example_env example_settings (Inl ''no connection'') (Inl ''no connection''))
       ''wallet/Withdrawal'' = Inr (example_wallet, account_W) \<and>
   bestPublicKey account_W = Inr \<lparr>Marshal = example_key\<rparr> \<and>
   fst (input (example_env example_settings (Inl ''no connection'') (Inl ''no connection'')))
     = Inr example_data \<and>
   length (withdrawalCredentials example_data) = 32 \<and>
   withdrawalCredentials example_data ! 0 = 0 \<and>
   withdrawalCredentials example_data ! 31 = SHA256 example_key ! 31 \<and>
   GetString (example_env (example_settings(''withdrawalaccount'' := [],
         ''withdrawalpubkey'' := example_hex)) (Inl ''no connection'') (Inl ''no connection''))
       ''withdrawalaccount'' = [] \<and>
   DecodeString (TrimPrefix example_hex ''0x'') = Inr example_key \<and>
   length example_key = 48 \<and>
   withdrawalCredentials_of (example_env (example_settings(''withdrawalaccount'' := [],
         ''withdrawalpubkey'' := example_hex)) (Inl ''no connection'') (Inl ''no connection''))
     = Inr ((SHA256 example_key)[0 := 0])"
proof -
  let ?E = "example_env example_settings (Inl ''no connection'') (Inl ''no connection'')"
  let ?E' = "example_env (example_settings(''withdrawalaccount'' := [],
         ''withdrawalpubkey'' := example_hex)) (Inl ''no connection'') (Inl ''no connection'')"
  have g: "GetString ?E ''withdrawalaccount'' = ''wallet/Withdrawal''"
    by (simp add: example_env_sel example_settings_simps)
  have r: "walletAndAccountFromPath ?E ''wallet/Withdrawal'' = Inr (example_wallet, account_W)"
    by (rule example_walletAndAccountFromPath) (simp add: example_settings_simps)
  have b: "bestPublicKey account_W = Inr \<lparr>Marshal = example_key\<rparr>"
    by (simp add: bestPublicKey_def account_W_def)
  have s: "fst (input ?E) = Inr example_data"
    by (rule example_input)
  have g': "GetString ?E' ''withdrawalaccount'' = []"
    and h': "GetString ?E' ''withdrawalpubkey'' = example_hex"
    by (simp_all add: example_env_sel)
  have n: "example_hex \<noteq> []"
    by (simp add: example_hex_def)
  have l: "length example_key = 48"
    by (simp add: example_key_def)
  have k: "BLSPublicKeyFromBytes ?E' example_key = Inr \<lparr>Marshal = example_key\<rparr>"
    by (simp add: example_env_sel l)
  have 1: "withdrawalCredentials_of ?E = Inr ((SHA256 example_key)[0 := 0]) \<and>
         (\<forall>d. fst (input ?E) = Inr d \<longrightarrow>
            length (withdrawalCredentials d) = 32 \<and> withdrawalCredentials d ! 0 = 0 \<and>
            (\<forall>i. 1 \<le> i \<and> i \<le> 31 \<longrightarrow> withdrawalCredentials d ! i = SHA256 example_key ! i))"
    by (rule withdrawal_credentials_sha256
          [of ?E example_wallet account_W "\<lparr>Marshal = example_key\<rparr>" "[]" example_key])
       (simp_all add: g r b)
  have 2: "withdrawalCredentials_of ?E' = Inr ((SHA256 example_key)[0 := 0]) \<and>
         (\<forall>d. fst (input ?E') = Inr d \<longrightarrow>
            length (withdrawalCredentials d) = 32 \<and> withdrawalCredentials d ! 0 = 0 \<and>
            (\<forall>i. 1 \<le> i \<and> i \<le> 31 \<longrightarrow> withdrawalCredentials d ! i = SHA256 example_key ! i))"
    by (rule withdrawal_credentials_sha256
          [of ?E' example_wallet account_W "\<lparr>Marshal = example_key\<rparr>" example_key example_key])
       (simp_all add: g' h' n decode_example_hex l k)
  from 1 s have 3: "length (withdrawalCredentials example_data) = 32 \<and>
      withdrawalCredentials example_data ! 0 = 0 \<and>
      withdrawalCredentials example_data ! 31 = SHA256 example_key ! 31"
    by simp
  from g r b s 3 g' decode_example_hex l 2 show ?thesis
    by simp
qed

subsection \<open>C2: the withdrawal specification\<close>

text \<open>
  C2, as the code has it. \<open>input\<close> fails with the error that a withdrawal account or a
  withdrawal public key is required only when neither is given, and it does fail with
  it, before any call to the beacon node, when neither is given and the validator
  accounts are resolved. When a withdrawal account is given, the withdrawal public key
  is not looked at: the withdrawal credentials are the same with any value of it.
\<close>

theorem withdrawal_specification_required:
  "(fst (input env) = Inl (New ''withdrawalaccount or withdrawal public key is required'') \<longrightarrow>
      GetString env ''withdrawalaccount'' = [] \<and> GetString env ''withdrawalpubkey'' = []) \<and>
   (\<forall>accts. validatorAccounts_of env = Inr accts \<longrightarrow>
      GetString env ''withdrawalaccount'' = [] \<longrightarrow> GetString env ''withdrawalpubkey'' = [] \<longrightarrow>
      input env = (Inl (New ''withdrawalaccount or withdrawal public key is required''), [])) \<and>
   (\<forall>v. GetString env ''withdrawalaccount'' \<noteq> [] \<longrightarrow>
      withdrawalCredentials_of (env\<lparr>GetString := (GetString env)(''withdrawalpubkey'' := v)\<rparr>)
        = withdrawalCredentials_of env)"
proof (intro conjI allI impI)
  assume "fst (input env) = Inl (New ''withdrawalaccount or withdrawal public key is required'')"
  from input_Inl [OF this]
  have "withdrawalCredentials_of env
      = Inl (New ''withdrawalaccount or withdrawal public key is required'')"
    by (auto dest: validatorAccounts_of_New amount_of_New forkVersion_of_New
        simp: Domain_not_New)
  from withdrawalCredentials_of_New [OF this]
  show "GetString env ''withdrawalaccount'' = []" and "GetString env ''withdrawalpubkey'' = []"
    by simp_all
next
  fix accts
  assume "validatorAccounts_of env = Inr accts" "GetString env ''withdrawalaccount'' = []"
    "GetString env ''withdrawalpubkey'' = []"
  then show "input env = (Inl (New ''withdrawalaccount or withdrawal public key is required''), [])"
    by (simp add: input_def withdrawalCredentials_of_def)
next
  fix v
  assume "GetString env ''withdrawalaccount'' \<noteq> []"
  then show "withdrawalCredentials_of (env\<lparr>GetString := (GetString env)(''withdrawalpubkey'' := v)\<rparr>)
        = withdrawalCredentials_of env"
    by (rule withdrawalCredentials_of_ignores_pubkey)
qed

text \<open>
  C2 as stated fails: with a withdrawal account and a withdrawal public key both given,
  \<open>input\<close> succeeds, and the credentials are those of the account.
\<close>

theorem both_withdrawal_settings_counterexample:
  "GetString (example_env (example_settings(''withdrawalpubkey'' := other_hex))
      (Inl ''no connection'') (Inl ''no connection'')) ''withdrawalaccount'' \<noteq> [] \<and>
   GetString (example_env (example_settings(''withdrawalpubkey'' := other_hex))
      (Inl ''no connection'') (Inl ''no connection'')) ''withdrawalpubkey'' \<noteq> [] \<and>
   input (example_env (example_settings(''withdrawalpubkey'' := other_hex))
      (Inl ''no connection'') (Inl ''no connection'')) = (Inr example_data, []) \<and>
   fst (input (example_env (example_settings(''withdrawalpubkey'' := other_hex))
      (Inl ''no connection'') (Inl ''no connection'')))
     \<noteq> Inl (New ''withdrawalaccount or withdrawal public key is required'')"
proof -
  let ?E = "example_env (example_settings(''withdrawalpubkey'' := other_hex))
      (Inl ''no connection'') (Inl ''no connection'')"
  have "GetString ?E ''withdrawalaccount'' = ''wallet/Withdrawal''"
    and "GetString ?E ''withdrawalpubkey'' = other_hex"
    by (simp_all add: example_env_sel example_settings_simps)
  moreover have "other_hex \<noteq> []"
    by (simp add: other_hex_def)
  moreover have "input ?E = (Inr example_data, [])"
    by (simp add: input_def example_validatorAccounts example_withdrawalAccount example_amount
        example_forkVersion example_settings_simps Domain_def DomainDeposit_def
        ZeroGenesisValidatorsRoot_def format_of_def example_env_sel example_data_def)
  ultimately show ?thesis
    by simp
qed

theorem withdrawal_specification_required_witness:
  "validatorAccounts_of (example_env (example_settings(''withdrawalaccount'' := []))
      (Inl ''no connection'') (Inl ''no connection'')) = Inr [account_A, account_B] \<and>
   GetString (example_env (example_settings(''withdrawalaccount'' := []))
      (Inl ''no connection'') (Inl ''no connection'')) ''withdrawalaccount'' = [] \<and>
   GetString (example_env (example_settings(''withdrawalaccount'' := []))
      (Inl ''no connection'') (Inl ''no connection'')) ''withdrawalpubkey'' = [] \<and>
   input (example_env (example_settings(''withdrawalaccount'' := []))
      (Inl ''no connection'') (Inl ''no connection''))
     = (Inl (New ''withdrawalaccount or withdrawal public key is required''), []) \<and>
   GetString (example_env example_settings (Inl ''no connection'') (Inl ''no connection''))
      ''withdrawalaccount'' \<noteq> [] \<and>
   withdrawalCredentials_of
      ((example_env example_settings (Inl ''no connection'') (Inl ''no connection''))
        \<lparr>GetString := (GetString (example_env example_settings (Inl ''no connection'')
           (Inl ''no connection'')))(''withdrawalpubkey'' := other_hex)\<rparr>)
     = Inr ((SHA256 example_key)[0 := 0])"
proof -
  let ?N = "example_env (example_settings(''withdrawalaccount'' := []))
      (Inl ''no connection'') (Inl ''no connection'')"
  let ?E = "example_env example_settings (Inl ''no connection'') (Inl ''no connection'')"
  have v: "validatorAccounts_of ?N = Inr [account_A, account_B]"
    by (rule example_validatorAccounts; simp add: example_settings_simps)
  have a: "GetString ?N ''withdrawalaccount'' = []"
    and p: "GetString ?N ''withdrawalpubkey'' = []"
    by (simp_all add: example_env_sel example_settings_simps)
  have a': "GetString ?E ''withdrawalaccount'' \<noteq> []"
    by (simp add: example_env_sel example_settings_simps)
  have w: "withdrawalCredentials_of ?E = Inr ((SHA256 example_key)[0 := 0])"
    by (rule example_withdrawalAccount; simp add: example_settings_simps)
  from withdrawal_specification_required [of ?N] v a p
  have 1: "input ?N = (Inl (New ''withdrawalaccount or withdrawal public key is required''), [])"
    by blast
  from withdrawal_specification_required [of ?E] a'
  have "withdrawalCredentials_of
      (?E\<lparr>GetString := (GetString ?E)(''withdrawalpubkey'' := other_hex)\<rparr>)
     = withdrawalCredentials_of ?E"
    by blast
  with w have 2: "withdrawalCredentials_of
      (?E\<lparr>GetString := (GetString ?E)(''withdrawalpubkey'' := other_hex)\<rparr>)
     = Inr ((SHA256 example_key)[0 := 0])"
    by simp
  from v a p 1 a' 2 show ?thesis
    by (intro conjI)
qed

subsection \<open>C3: the minimum amount\<close>

text \<open>
  C3. Let the validator accounts and the withdrawal credentials be resolved, and let
  the deposit value be a non-empty string that parses to the amount \<open>A\<close> in GWei. Then
  \<open>input\<close> returns the error that the deposit value must be at least 1 Ether if and
  only if \<open>A < 1000000000\<close>; an amount of exactly \<open>1000000000\<close> is accepted, and so is
  every larger one: it is the amount of every result of \<open>input\<close>.
\<close>

theorem deposit_value_minimum:
  assumes "validatorAccounts_of env = Inr accts"
    and "withdrawalCredentials_of env = Inr wc"
    and "GetString env ''depositvalue'' \<noteq> []"
    and "StringToGWei env (GetString env ''depositvalue'') = Inr A"
  shows "(fst (input env) = Inl (New ''deposit value must be at least 1 Ether'')
            \<longleftrightarrow> unat A < 1000000000) \<and>
         (unat A = 1000000000 \<longrightarrow> amount_of env = Inr A) \<and>
         (1000000000 \<le> unat A \<longrightarrow> amount_of env = Inr A \<and>
            (\<forall>d. fst (input env) = Inr d \<longrightarrow> amount d = A))"
proof -
  have lt: "A < 1000000000 \<longleftrightarrow> unat A < 1000000000"
    by (simp add: word_less_nat_alt)
  show ?thesis
  proof (cases "unat A < 1000000000")
    case True
    with assms lt have "amount_of env = Inl (New ''deposit value must be at least 1 Ether'')"
      by (simp add: amount_of_def)
    with assms(1,2) have "fst (input env) = Inl (New ''deposit value must be at least 1 Ether'')"
      by (simp add: input_def)
    with True show ?thesis by simp
  next
    case False
    with assms lt have a: "amount_of env = Inr A"
      by (simp add: amount_of_def)
    have "fst (input env) \<noteq> Inl (New ''deposit value must be at least 1 Ether'')"
    proof
      assume "fst (input env) = Inl (New ''deposit value must be at least 1 Ether'')"
      from input_Inl [OF this] assms(1,2) a
      show False
        by (auto dest: forkVersion_of_New simp: Domain_not_New)
    qed
    moreover have "amount d = A" if "fst (input env) = Inr d" for d
      using input_Inr(3) [OF that] a by simp
    ultimately show ?thesis using False a by auto
  qed
qed

theorem deposit_value_minimum_witness:
  "validatorAccounts_of (example_env (example_settings(''depositvalue'' := ''0.999999999 Ether''))
      (Inl ''no connection'') (Inl ''no connection'')) = Inr [account_A, account_B] \<and>
   withdrawalCredentials_of (example_env (example_settings(''depositvalue'' := ''0.999999999 Ether''))
      (Inl ''no connection'') (Inl ''no connection'')) = Inr ((SHA256 example_key)[0 := 0]) \<and>
   StringToGWei (example_env (example_settings(''depositvalue'' := ''0.999999999 Ether''))
      (Inl ''no connection'') (Inl ''no connection'')) ''0.999999999 Ether'' = Inr 999999999 \<and>
   fst (input (example_env (example_settings(''depositvalue'' := ''0.999999999 Ether''))
      (Inl ''no connection'') (Inl ''no connection'')))
     = Inl (New ''deposit value must be at least 1 Ether'') \<and>
   StringToGWei (example_env (example_settings(''depositvalue'' := ''1 Ether''))
      (Inl ''no connection'') (Inl ''no connection'')) ''1 Ether'' = Inr 1000000000 \<and>
   amount_of (example_env (example_settings(''depositvalue'' := ''1 Ether''))
      (Inl ''no connection'') (Inl ''no connection'')) = Inr 1000000000 \<and>
   fst (input (example_env (example_settings(''depositvalue'' := ''1 Ether''))
      (Inl ''no connection'') (Inl ''no connection'')))
     \<noteq> Inl (New ''deposit value must be at least 1 Ether'')"
proof -
  let ?L = "example_env (example_settings(''depositvalue'' := ''0.999999999 Ether''))
      (Inl ''no connection'') (Inl ''no connection'')"
  let ?O = "example_env (example_settings(''depositvalue'' := ''1 Ether''))
      (Inl ''no connection'') (Inl ''no connection'')"
  have vl: "validatorAccounts_of ?L = Inr [account_A, account_B]"
    and vo: "validatorAccounts_of ?O = Inr [account_A, account_B]"
    by (rule example_validatorAccounts; simp add: example_settings_simps)+
  have wl: "withdrawalCredentials_of ?L = Inr ((SHA256 example_key)[0 := 0])"
    and wo: "withdrawalCredentials_of ?O = Inr ((SHA256 example_key)[0 := 0])"
    by (rule example_withdrawalAccount; simp add: example_settings_simps)+
  have dl: "GetString ?L ''depositvalue'' = ''0.999999999 Ether''"
    and do: "GetString ?O ''depositvalue'' = ''1 Ether''"
    by (simp_all add: example_env_sel)
  have gl: "StringToGWei ?L ''0.999999999 Ether'' = Inr 999999999"
    and go: "StringToGWei ?O ''1 Ether'' = Inr 1000000000"
    by (simp_all add: example_env_sel example_gwei_def)
  from deposit_value_minimum [of ?L "[account_A, account_B]" "(SHA256 example_key)[0 := 0]"
      999999999] vl wl dl gl
  have 1: "fst (input ?L) = Inl (New ''deposit value must be at least 1 Ether'')"
    by simp
  from deposit_value_minimum [of ?O "[account_A, account_B]" "(SHA256 example_key)[0 := 0]"
      1000000000] vo wo do go
  have 2: "amount_of ?O = Inr 1000000000
      \<and> fst (input ?O) \<noteq> Inl (New ''deposit value must be at least 1 Ether'')"
    by simp
  from vl wl gl 1 go 2 show ?thesis by simp
qed

subsection \<open>C4: the length of the fork version\<close>

text \<open>
  C4. Let the validator accounts, the withdrawal credentials and the amount be
  resolved, and let the fork version be given as a string that decodes to bytes \<open>bs\<close>,
  not 4 of them. Then \<open>input\<close> fails with the error that the fork version must be
  exactly 4 bytes in length. Whatever the other settings are, a result of \<open>input\<close> with
  a fork version given holds the decoded bytes themselves, 4 of them: nothing is cut
  off and nothing is added.
\<close>

theorem fork_version_exactly_four_bytes:
  "(\<forall>accts wc g bs.
      validatorAccounts_of env = Inr accts \<longrightarrow> withdrawalCredentials_of env = Inr wc \<longrightarrow>
      amount_of env = Inr g \<longrightarrow> GetString env ''forkversion'' \<noteq> [] \<longrightarrow>
      DecodeString (TrimPrefix (GetString env ''forkversion'') ''0x'') = Inr bs \<longrightarrow>
      length bs \<noteq> 4 \<longrightarrow>
      input env = (Inl (New ''fork version must be exactly 4 bytes in length''), [])) \<and>
   (\<forall>d. GetString env ''forkversion'' \<noteq> [] \<longrightarrow> fst (input env) = Inr d \<longrightarrow>
      DecodeString (TrimPrefix (GetString env ''forkversion'') ''0x'') = Inr (forkVersion d)
      \<and> length (forkVersion d) = 4)"
proof (intro conjI allI impI)
  fix accts wc g bs
  assume s: "validatorAccounts_of env = Inr accts" "withdrawalCredentials_of env = Inr wc"
      "amount_of env = Inr g"
    and f: "GetString env ''forkversion'' \<noteq> []"
      "DecodeString (TrimPrefix (GetString env ''forkversion'') ''0x'') = Inr bs"
      "length bs \<noteq> 4"
  from f have "forkVersion_of env
      = (Inl (New ''fork version must be exactly 4 bytes in length''), [])"
    by (simp add: forkVersion_of_def)
  then show "input env = (Inl (New ''fork version must be exactly 4 bytes in length''), [])"
    by (simp add: input_stages [OF s])
next
  fix d
  assume f: "GetString env ''forkversion'' \<noteq> []" and r: "fst (input env) = Inr d"
  from forkVersion_of_explicit(2) [OF f input_Inr(4) [OF r]]
  show "DecodeString (TrimPrefix (GetString env ''forkversion'') ''0x'') = Inr (forkVersion d)"
    and "length (forkVersion d) = 4"
    by simp_all
qed

theorem fork_version_exactly_four_bytes_witness:
  "validatorAccounts_of (example_env (example_settings(''forkversion'' := ''0x000001''))
      (Inl ''no connection'') (Inl ''no connection'')) = Inr [account_A, account_B] \<and>
   withdrawalCredentials_of (example_env (example_settings(''forkversion'' := ''0x000001''))
      (Inl ''no connection'') (Inl ''no connection'')) = Inr ((SHA256 example_key)[0 := 0]) \<and>
   amount_of (example_env (example_settings(''forkversion'' := ''0x000001''))
      (Inl ''no connection'') (Inl ''no connection'')) = Inr 32000000000 \<and>
   DecodeString (TrimPrefix ''0x000001'' ''0x'') = Inr [0, 0, 1] \<and>
   input (example_env (example_settings(''forkversion'' := ''0x000001''))
      (Inl ''no connection'') (Inl ''no connection''))
     = (Inl (New ''fork version must be exactly 4 bytes in length''), []) \<and>
   fst (input (example_env example_settings (Inl ''no connection'') (Inl ''no connection'')))
     = Inr example_data \<and>
   DecodeString (TrimPrefix ''0x00000001'' ''0x'') = Inr (forkVersion example_data)"
proof -
  let ?T = "example_env (example_settings(''forkversion'' := ''0x000001''))
      (Inl ''no connection'') (Inl ''no connection'')"
  let ?E = "example_env example_settings (Inl ''no connection'') (Inl ''no connection'')"
  have v: "validatorAccounts_of ?T = Inr [account_A, account_B]"
    by (rule example_validatorAccounts; simp add: example_settings_simps)
  have w: "withdrawalCredentials_of ?T = Inr ((SHA256 example_key)[0 := 0])"
    by (rule example_withdrawalAccount; simp add: example_settings_simps)
  have a: "amount_of ?T = Inr 32000000000"
    by (rule example_amount; simp add: example_settings_simps)
  have g: "GetString ?T ''forkversion'' = ''0x000001''"
    and g': "GetString ?E ''forkversion'' = ''0x00000001''"
    by (simp_all add: example_env_sel example_settings_simps)
  have d: "DecodeString (TrimPrefix ''0x000001'' ''0x'') = Inr [0, 0, 1]"
    by (simp add: TrimPrefix_def HasPrefix_def fromHexChar_def)
  have s: "fst (input ?E) = Inr example_data"
    by (rule example_input)
  from fork_version_exactly_four_bytes [of ?T] v w a g d
  have 1: "input ?T = (Inl (New ''fork version must be exactly 4 bytes in length''), [])"
    by simp
  from fork_version_exactly_four_bytes [of ?E] g' s
  have 2: "DecodeString (TrimPrefix ''0x00000001'' ''0x'') = Inr (forkVersion example_data)"
    by simp
  from v w a d 1 s 2 show ?thesis by simp
qed

subsection \<open>C5: where the fork version comes from\<close>

text \<open>
  C5, as the code has it. With a fork version given, \<open>input\<close> makes no call to the
  beacon node. With none given, once the validator accounts, the withdrawal credentials
  and the amount are resolved, it connects; if the connection fails the error is
  \<^verbatim>\<open>failed to connect to beacon node\<close> around the cause, and the configuration is not
  fetched; if the connection succeeds it fetches the configuration, and if that fails
  the error is the one that advises a connection or an explicit fork version; if the
  configuration holds a genesis fork version of bytes, that is the fork version of
  every result.
\<close>

theorem fork_version_resolution:
  "(GetString env ''forkversion'' \<noteq> [] \<longrightarrow> snd (input env) = []) \<and>
   (\<forall>accts wc g.
      validatorAccounts_of env = Inr accts \<longrightarrow> withdrawalCredentials_of env = Inr wc \<longrightarrow>
      amount_of env = Inr g \<longrightarrow> GetString env ''forkversion'' = [] \<longrightarrow>
      (\<forall>m. Connect env = Inl m \<longrightarrow>
         input env = (Inl (Wrap (Ext m) ''failed to connect to beacon node''), [CallConnect])) \<and>
      (\<forall>conn m. Connect env = Inr conn \<longrightarrow> FetchChainConfig env conn = Inl m \<longrightarrow>
         input env = (Inl (Wrap (Ext m) could_not_connect), [CallConnect, CallFetchChainConfig conn])
         \<and> advises (Wrap (Ext m) could_not_connect)) \<and>
      (\<forall>conn config v. Connect env = Inr conn \<longrightarrow> FetchChainConfig env conn = Inr config \<longrightarrow>
         config ''GenesisForkVersion'' = Some (Bytes v) \<longrightarrow>
         snd (input env) = [CallConnect, CallFetchChainConfig conn]
         \<and> (\<forall>d. fst (input env) = Inr d \<longrightarrow> forkVersion d = v)))"
proof (intro conjI allI impI)
  assume "GetString env ''forkversion'' \<noteq> []"
  then have "snd (forkVersion_of env) = []"
    by (rule forkVersion_of_explicit(1))
  with input_calls [of env] show "snd (input env) = []"
    by auto
next
  fix accts wc g m
  assume s: "validatorAccounts_of env = Inr accts" "withdrawalCredentials_of env = Inr wc"
      "amount_of env = Inr g"
    and "GetString env ''forkversion'' = []" "Connect env = Inl m"
  then have "forkVersion_of env
      = (Inl (Wrap (Ext m) ''failed to connect to beacon node''), [CallConnect])"
    by (simp add: forkVersion_of_def)
  then show "input env = (Inl (Wrap (Ext m) ''failed to connect to beacon node''), [CallConnect])"
    by (simp add: input_stages [OF s])
next
  fix accts wc g conn m
  assume s: "validatorAccounts_of env = Inr accts" "withdrawalCredentials_of env = Inr wc"
      "amount_of env = Inr g"
    and "GetString env ''forkversion'' = []" "Connect env = Inr conn"
      "FetchChainConfig env conn = Inl m"
  then have "forkVersion_of env
      = (Inl (Wrap (Ext m) could_not_connect), [CallConnect, CallFetchChainConfig conn])"
    by (simp add: forkVersion_of_def)
  then show "input env
      = (Inl (Wrap (Ext m) could_not_connect), [CallConnect, CallFetchChainConfig conn])"
    by (simp add: input_stages [OF s])
  show "advises (Wrap (Ext m) could_not_connect)"
    by (simp add: could_not_connect_advises)
next
  fix accts wc g conn config v
  assume s: "validatorAccounts_of env = Inr accts" "withdrawalCredentials_of env = Inr wc"
      "amount_of env = Inr g"
    and "GetString env ''forkversion'' = []" "Connect env = Inr conn"
      "FetchChainConfig env conn = Inr config" "config ''GenesisForkVersion'' = Some (Bytes v)"
  then have f: "forkVersion_of env = (Inr v, [CallConnect, CallFetchChainConfig conn])"
    by (simp add: forkVersion_of_def)
  then show "snd (input env) = [CallConnect, CallFetchChainConfig conn]"
    by (simp add: input_stages [OF s] split: sum.splits)
  fix d
  assume "fst (input env) = Inr d"
  from input_Inr(4) [OF this] f show "forkVersion d = v"
    by simp
qed

text \<open>
  C5 as stated fails: when the connection fails, the error of \<open>input\<close> does not advise a
  connection or an explicit fork version.
\<close>

theorem connection_failure_counterexample:
  "GetString (example_env (example_settings(''forkversion'' := []))
      (Inl ''no connection'') (Inl ''unavailable'')) ''forkversion'' = [] \<and>
   Connect (example_env (example_settings(''forkversion'' := []))
      (Inl ''no connection'') (Inl ''unavailable'')) = Inl ''no connection'' \<and>
   input (example_env (example_settings(''forkversion'' := []))
      (Inl ''no connection'') (Inl ''unavailable''))
     = (Inl (Wrap (Ext ''no connection'') ''failed to connect to beacon node''), [CallConnect]) \<and>
   \<not> advises (Wrap (Ext ''no connection'') ''failed to connect to beacon node'')"
proof -
  let ?E = "example_env (example_settings(''forkversion'' := []))
      (Inl ''no connection'') (Inl ''unavailable'')"
  have "forkVersion_of ?E
      = (Inl (Wrap (Ext ''no connection'') ''failed to connect to beacon node''), [CallConnect])"
    by (simp add: forkVersion_of_def example_env_sel)
  then have "input ?E
      = (Inl (Wrap (Ext ''no connection'') ''failed to connect to beacon node''), [CallConnect])"
    by (simp add: input_def example_validatorAccounts example_withdrawalAccount example_amount
        example_settings_simps)
  then show ?thesis
    by (simp add: example_env_sel failed_to_connect_no_advice no_connection_no_advice)
qed

theorem fork_version_resolution_witness:
  "GetString (example_env example_settings (Inl ''no connection'') (Inl ''unavailable''))
      ''forkversion'' \<noteq> [] \<and>
   snd (input (example_env example_settings (Inl ''no connection'') (Inl ''unavailable''))) = [] \<and>
   Connect (example_env (example_settings(''forkversion'' := []))
      (Inl ''no connection'') (Inl ''unavailable'')) = Inl ''no connection'' \<and>
   input (example_env (example_settings(''forkversion'' := []))
      (Inl ''no connection'') (Inl ''unavailable''))
     = (Inl (Wrap (Ext ''no connection'') ''failed to connect to beacon node''), [CallConnect]) \<and>
   FetchChainConfig (example_env (example_settings(''forkversion'' := []))
      (Inr (ClientConn ''localhost:4000'')) (Inl ''unavailable'')) (ClientConn ''localhost:4000'')
     = Inl ''unavailable'' \<and>
   input (example_env (example_settings(''forkversion'' := []))
      (Inr (ClientConn ''localhost:4000'')) (Inl ''unavailable''))
     = (Inl (Wrap (Ext ''unavailable'') could_not_connect),
        [CallConnect, CallFetchChainConfig (ClientConn ''localhost:4000'')]) \<and>
   snd (input (example_env (example_settings(''forkversion'' := []))
      (Inr (ClientConn ''localhost:4000''))
      (Inr [''GenesisForkVersion'' \<mapsto> Bytes [0, 0, 0, 1]])))
     = [CallConnect, CallFetchChainConfig (ClientConn ''localhost:4000'')]"
proof -
  let ?S = "example_settings(''forkversion'' := [])"
  let ?E = "example_env example_settings (Inl ''no connection'') (Inl ''unavailable'')"
  let ?N = "example_env ?S (Inl ''no connection'') (Inl ''unavailable'')"
  let ?F = "example_env ?S (Inr (ClientConn ''localhost:4000'')) (Inl ''unavailable'')"
  let ?G = "example_env ?S (Inr (ClientConn ''localhost:4000''))
      (Inr [''GenesisForkVersion'' \<mapsto> Bytes [0, 0, 0, 1]])"
  have v: "validatorAccounts_of (example_env ?S c f) = Inr [account_A, account_B]" for c f
    by (rule example_validatorAccounts; simp add: example_settings_simps)
  have w: "withdrawalCredentials_of (example_env ?S c f) = Inr ((SHA256 example_key)[0 := 0])"
    for c f
    by (rule example_withdrawalAccount; simp add: example_settings_simps)
  have a: "amount_of (example_env ?S c f) = Inr 32000000000" for c f
    by (rule example_amount; simp add: example_settings_simps)
  have g: "GetString (example_env ?S c f) ''forkversion'' = []" for c f
    by (simp add: example_env_sel)
  have e: "GetString ?E ''forkversion'' \<noteq> []"
    by (simp add: example_env_sel example_settings_simps)
  have cn: "Connect ?N = Inl ''no connection''"
    and cf: "Connect ?F = Inr (ClientConn ''localhost:4000'')"
    and cg: "Connect ?G = Inr (ClientConn ''localhost:4000'')"
    and ff: "FetchChainConfig ?F (ClientConn ''localhost:4000'') = Inl ''unavailable''"
    and fg: "FetchChainConfig ?G (ClientConn ''localhost:4000'')
        = Inr [''GenesisForkVersion'' \<mapsto> Bytes [0, 0, 0, 1]]"
    by (simp_all add: example_env_sel)
  have m: "[''GenesisForkVersion'' \<mapsto> Bytes [0, 0, 0, 1]] ''GenesisForkVersion''
      = Some (Bytes [0, 0, 0, 1])"
    by simp
  from fork_version_resolution [of ?E] e
  have 1: "snd (input ?E) = []"
    by blast
  from fork_version_resolution [of ?N] v w a g cn
  have 2: "input ?N
      = (Inl (Wrap (Ext ''no connection'') ''failed to connect to beacon node''), [CallConnect])"
    by blast
  from fork_version_resolution [of ?F] v w a g cf ff
  have 3: "input ?F = (Inl (Wrap (Ext ''unavailable'') could_not_connect),
        [CallConnect, CallFetchChainConfig (ClientConn ''localhost:4000'')])"
    by blast
  from fork_version_resolution [of ?G] v w a g cg fg m
  have 4: "snd (input ?G) = [CallConnect, CallFetchChainConfig (ClientConn ''localhost:4000'')]"
    by blast
  from e 1 cn 2 ff 3 4 show ?thesis
    by (intro conjI)
qed

subsection \<open>C6: the domain\<close>

text \<open>
  C6. In a result of \<open>input\<close> with a fork version \<open>F\<close> of 4 bytes, the domain is
  \<open>Domain\<close> of the deposit domain type, \<open>F\<close> and the root of 32 zero bytes, a value of
  32 bytes; so every result of \<open>input\<close> with the fork version \<open>F\<close>, in whatever
  environment, has the same domain.
\<close>

theorem domain_function_of_fork_version:
  assumes "fst (input env) = Inr d" and "forkVersion d = F" and "length F = 4"
  shows "Domain DomainDeposit F (replicate 32 0) = Inr (domain d) \<and>
         domain d = [3, 0, 0, 0] @ take 28 (SHA256 (F @ replicate 28 0 @ replicate 32 0)) \<and>
         length (domain d) = 32 \<and>
         (\<forall>env' d'. fst (input env') = Inr d' \<longrightarrow> forkVersion d' = F \<longrightarrow> domain d' = domain d)"
proof -
  from input_Inr(5) [OF assms(1)] assms(2)
  have D: "Domain DomainDeposit F (replicate 32 0) = Inr (domain d)"
    by (simp add: ZeroGenesisValidatorsRoot_def)
  with assms(3) have "domain d = [3, 0, 0, 0] @ take 28 (SHA256 (F @ replicate 28 0 @ replicate 32 0))"
    by (simp add: Domain_def DomainDeposit_def)
  moreover have "domain d' = domain d" if "fst (input env') = Inr d'" "forkVersion d' = F"
    for env' d'
    using input_Inr(5) [OF that(1)] that(2) D by (simp add: ZeroGenesisValidatorsRoot_def)
  ultimately show ?thesis
    using D length_Domain [OF D] by blast
qed

theorem domain_function_of_fork_version_witness:
  "fst (input (example_env example_settings (Inl ''no connection'') (Inl ''no connection'')))
     = Inr example_data \<and>
   forkVersion example_data = [0, 0, 0, 1] \<and>
   length (domain example_data) = 32 \<and>
   domain example_data
     = [3, 0, 0, 0] @ take 28 (SHA256 ([0, 0, 0, 1] @ replicate 28 0 @ replicate 32 0)) \<and>
   fst (input (example_env (example_settings(''depositvalue'' := ''1 Ether''))
      (Inr (ClientConn ''localhost:4000'')) (Inl ''unavailable'')))
     = Inr (example_data\<lparr>amount := 1000000000\<rparr>) \<and>
   domain (example_data\<lparr>amount := 1000000000\<rparr>) = domain example_data"
proof -
  let ?E = "example_env example_settings (Inl ''no connection'') (Inl ''no connection'')"
  let ?O = "example_env (example_settings(''depositvalue'' := ''1 Ether''))
      (Inr (ClientConn ''localhost:4000'')) (Inl ''unavailable'')"
  have s: "fst (input ?E) = Inr example_data"
    by (rule example_input)
  have f: "forkVersion example_data = [0, 0, 0, 1]"
    by (simp add: example_data_def)
  have o: "fst (input ?O) = Inr (example_data\<lparr>amount := 1000000000\<rparr>)"
    by (simp add: input_def example_validatorAccounts example_withdrawalAccount
        example_amount_one example_forkVersion example_settings_simps Domain_def
        DomainDeposit_def ZeroGenesisValidatorsRoot_def format_of_def example_env_sel
        example_data_def)
  have f': "forkVersion (example_data\<lparr>amount := 1000000000\<rparr>) = [0, 0, 0, 1]"
    by (simp add: example_data_def)
  have T: "Domain DomainDeposit [0, 0, 0, 1] (replicate 32 0) = Inr (domain example_data) \<and>
      domain example_data
        = [3, 0, 0, 0] @ take 28 (SHA256 ([0, 0, 0, 1] @ replicate 28 0 @ replicate 32 0)) \<and>
      length (domain example_data) = 32 \<and>
      (\<forall>env' d'. fst (input env') = Inr d' \<longrightarrow> forkVersion d' = [0, 0, 0, 1]
         \<longrightarrow> domain d' = domain example_data)"
    by (rule domain_function_of_fork_version [OF s f]) simp
  from T o f' have "domain (example_data\<lparr>amount := 1000000000\<rparr>) = domain example_data"
    by blast
  with T s f o show ?thesis by blast
qed

subsection \<open>C7: the best public key\<close>

text \<open>
  C7. \<open>bestPublicKey\<close> returns the composite public key of an account that has one;
  otherwise the public key of an account that has one; otherwise it fails with the
  error that the account provides no public key.
\<close>

theorem bestPublicKey_prefers_composite:
  "(\<forall>k. CompositePublicKey a = Some k \<longrightarrow> bestPublicKey a = Inr k) \<and>
   (\<forall>k. CompositePublicKey a = None \<longrightarrow> PublicKey a = Some k \<longrightarrow> bestPublicKey a = Inr k) \<and>
   (CompositePublicKey a = None \<longrightarrow> PublicKey a = None \<longrightarrow>
      bestPublicKey a = Inl (New ''account does not provide a public key''))"
  by (simp add: bestPublicKey_def)

theorem bestPublicKey_prefers_composite_witness:
  "CompositePublicKey account_W = Some \<lparr>Marshal = example_key\<rparr> \<and>
   PublicKey account_W = Some \<lparr>Marshal = replicate 48 3\<rparr> \<and>
   bestPublicKey account_W = Inr \<lparr>Marshal = example_key\<rparr> \<and>
   CompositePublicKey account_A = None \<and>
   bestPublicKey account_A = Inr \<lparr>Marshal = replicate 48 1\<rparr> \<and>
   CompositePublicKey (named ''a'') = None \<and> PublicKey (named ''a'') = None \<and>
   bestPublicKey (named ''a'') = Inl (New ''account does not provide a public key'')"
proof -
  have w: "CompositePublicKey account_W = Some \<lparr>Marshal = example_key\<rparr>"
    and w': "PublicKey account_W = Some \<lparr>Marshal = replicate 48 3\<rparr>"
    by (simp_all add: account_W_def)
  have a: "CompositePublicKey account_A = None"
    and a': "PublicKey account_A = Some \<lparr>Marshal = replicate 48 1\<rparr>"
    by (simp_all add: account_A_def)
  have n: "CompositePublicKey (named ''a'') = None" and n': "PublicKey (named ''a'') = None"
    by (simp_all add: named_def)
  from bestPublicKey_prefers_composite [of account_W] w
  have 1: "bestPublicKey account_W = Inr \<lparr>Marshal = example_key\<rparr>" by blast
  from bestPublicKey_prefers_composite [of account_A] a a'
  have 2: "bestPublicKey account_A = Inr \<lparr>Marshal = replicate 48 1\<rparr>" by blast
  from bestPublicKey_prefers_composite [of "named ''a''"] n n'
  have 3: "bestPublicKey (named ''a'') = Inl (New ''account does not provide a public key'')"
    by blast
  from w w' a n n' 1 2 3 show ?thesis by blast
qed

subsection \<open>C8: the order of the accounts\<close>

text \<open>
  C8. The accounts that \<open>walletAndAccountsFromPath\<close> returns are in ascending order of
  their names: an account never follows one with a greater name. The names returned,
  in their order, do not depend on the order in which the wallet yields the accounts:
  a wallet that yields the same accounts in another order gives, for the same account
  specification, the same list of names.
\<close>

theorem accounts_sorted_by_name:
  assumes "walletAndAccountsFromPath env path = Inr (w, accts)"
  shows "sorted (map Name accts) \<and>
         (\<forall>i j. i < j \<and> j < length accts \<longrightarrow> Name (accts ! i) \<le> Name (accts ! j)) \<and>
         (\<forall>env' path' w' accts' walletName walletName' accountSpec.
            walletAndAccountsFromPath env' path' = Inr (w', accts') \<longrightarrow>
            WalletAndAccountNames env path = Inr (walletName, accountSpec) \<longrightarrow>
            WalletAndAccountNames env' path' = Inr (walletName', accountSpec) \<longrightarrow>
            mset (Accounts w') = mset (Accounts w) \<longrightarrow>
            map Name accts' = map Name accts)"
proof (intro conjI allI impI)
  from assms obtain re where
    "accts = sort_key Name (filter (\<lambda>account. Match re (Name account)) (Accounts w))"
    by (rule walletAndAccountsFromPath_Inr)
  then show s: "sorted (map Name accts)"
    by simp
  fix i j
  assume "i < j \<and> j < length accts"
  with s show "Name (accts ! i) \<le> Name (accts ! j)"
    by (auto simp: sorted_iff_nth_mono_less)
next
  fix env' path' w' accts' walletName walletName' accountSpec
  assume r: "walletAndAccountsFromPath env' path' = Inr (w', accts')"
    and n: "WalletAndAccountNames env path = Inr (walletName, accountSpec)"
    and n': "WalletAndAccountNames env' path' = Inr (walletName', accountSpec)"
    and m: "mset (Accounts w') = mset (Accounts w)"
  from assms obtain wn sp re where
    n0: "WalletAndAccountNames env path = Inr (wn, sp)"
    and c: "MustCompile (if sp = [] then ''^.*$'' else ''^'' @ sp @ ''$'') = Inr re"
    and a: "accts = sort_key Name (filter (\<lambda>account. Match re (Name account)) (Accounts w))"
    by (rule walletAndAccountsFromPath_Inr)
  from r obtain wn' sp' re' where
    n0': "WalletAndAccountNames env' path' = Inr (wn', sp')"
    and c': "MustCompile (if sp' = [] then ''^.*$'' else ''^'' @ sp' @ ''$'') = Inr re'"
    and a': "accts' = sort_key Name (filter (\<lambda>account. Match re' (Name account)) (Accounts w'))"
    by (rule walletAndAccountsFromPath_Inr)
  from n n0 n' n0' have "sp = accountSpec" "sp' = accountSpec"
    by simp_all
  with c c' have "re' = re"
    by (cases "accountSpec = []") simp_all
  with a' have
    "accts' = sort_key Name (filter (\<lambda>account. Match re (Name account)) (Accounts w'))"
    by simp
  moreover have "map Name (sort_key Name (filter (\<lambda>account. Match re (Name account)) (Accounts w')))
      = map Name (sort_key Name (filter (\<lambda>account. Match re (Name account)) (Accounts w)))"
    by (rule names_of_sorted_matches) (rule m)
  ultimately show "map Name accts' = map Name accts"
    using a by simp
qed

theorem accounts_sorted_by_name_witness:
  "walletAndAccountsFromPath
     (example_env example_settings (Inl ''no connection'') (Inl ''no connection'')) ''wallet/.''
     = Inr (example_wallet, [account_A, account_B]) \<and>
   Accounts example_wallet = [account_B, account_W, account_A] \<and>
   map Name [account_A, account_B] = [''A'', ''B''] \<and>
   sorted (map Name [account_A, account_B]) \<and>
   walletAndAccountsFromPath
     ((example_env example_settings (Inl ''no connection'') (Inl ''no connection''))
        \<lparr>OpenWallet := (\<lambda>name. Inr (example_wallet\<lparr>Accounts := [account_A, account_W, account_B]\<rparr>))\<rparr>)
     ''wallet/.''
     = Inr (example_wallet\<lparr>Accounts := [account_A, account_W, account_B]\<rparr>, [account_A, account_B])"
proof -
  let ?E = "example_env example_settings (Inl ''no connection'') (Inl ''no connection'')"
  have r: "walletAndAccountsFromPath ?E ''wallet/.'' = Inr (example_wallet, [account_A, account_B])"
    by (rule example_walletAndAccountsFromPath) (simp add: example_settings_simps)
  have a: "Accounts example_wallet = [account_B, account_W, account_A]"
    by (simp add: example_wallet_def)
  have n: "map Name [account_A, account_B] = [''A'', ''B'']"
    by (simp add: account_A_def account_B_def)
  have r': "walletAndAccountsFromPath
     (?E\<lparr>OpenWallet := (\<lambda>name. Inr (example_wallet\<lparr>Accounts := [account_A, account_W, account_B]\<rparr>))\<rparr>)
     ''wallet/.''
     = Inr (example_wallet\<lparr>Accounts := [account_A, account_W, account_B]\<rparr>, [account_A, account_B])"
    by (rule example_walletAndAccountsFromPath_reordered) (simp add: example_settings_simps)
  from accounts_sorted_by_name [OF r] have "sorted (map Name [account_A, account_B])"
    by (rule conjunct1)
  with r a n r' show ?thesis by (intro conjI)
qed

subsection \<open>C9: no empty batch\<close>

text \<open>
  C9. When the validator account is given and its path resolves to no account,
  \<open>input\<close> fails with the error for an unknown validator account, and every result of
  \<open>input\<close> holds at least one validator account.
\<close>

theorem input_validator_accounts_nonempty:
  "(\<forall>w. GetString env ''validatoraccount'' \<noteq> [] \<longrightarrow>
        walletAndAccountsFromPath env (GetString env ''validatoraccount'') = Inr (w, []) \<longrightarrow>
        input env = (Inl (New ''unknown validator account''), [])) \<and>
   (\<forall>d. fst (input env) = Inr d \<longrightarrow> validatorAccounts d \<noteq> [])"
proof (intro conjI allI impI)
  fix w
  assume "GetString env ''validatoraccount'' \<noteq> []"
    and "walletAndAccountsFromPath env (GetString env ''validatoraccount'') = Inr (w, [])"
  then show "input env = (Inl (New ''unknown validator account''), [])"
    by (simp add: input_def validatorAccounts_of_def)
next
  fix d
  assume "fst (input env) = Inr d"
  then have "validatorAccounts_of env = Inr (validatorAccounts d)"
    by (rule input_Inr)
  then show "validatorAccounts d \<noteq> []"
    by (auto simp: validatorAccounts_of_def split: if_splits sum.splits)
qed

theorem input_validator_accounts_nonempty_witness:
  "GetString (example_env (example_settings(''validatoraccount'' := ''wallet/x''))
       (Inl ''no connection'') (Inl ''no connection'')) ''validatoraccount'' \<noteq> [] \<and>
   walletAndAccountsFromPath
     (example_env (example_settings(''validatoraccount'' := ''wallet/x''))
       (Inl ''no connection'') (Inl ''no connection'')) ''wallet/x'' = Inr (example_wallet, []) \<and>
   input (example_env (example_settings(''validatoraccount'' := ''wallet/x''))
       (Inl ''no connection'') (Inl ''no connection''))
     = (Inl (New ''unknown validator account''), []) \<and>
   fst (input (example_env example_settings (Inl ''no connection'') (Inl ''no connection'')))
     = Inr example_data \<and>
   validatorAccounts example_data \<noteq> []"
proof -
  let ?E = "example_env (example_settings(''validatoraccount'' := ''wallet/x''))
       (Inl ''no connection'') (Inl ''no connection'')"
  let ?E' = "example_env example_settings (Inl ''no connection'') (Inl ''no connection'')"
  have g: "GetString ?E ''validatoraccount'' = ''wallet/x''"
    by (simp add: example_env_sel)
  have r: "walletAndAccountsFromPath ?E ''wallet/x'' = Inr (example_wallet, [])"
    by (rule example_no_account) (simp add: example_settings_simps)
  have s: "fst (input ?E') = Inr example_data"
    by (rule example_input)
  from input_validator_accounts_nonempty [of ?E] g r
  have 1: "input ?E = (Inl (New ''unknown validator account''), [])"
    by simp
  from input_validator_accounts_nonempty [of ?E'] s
  have 2: "validatorAccounts example_data \<noteq> []"
    by blast
  from g r s 1 2 show ?thesis by simp
qed

subsection \<open>C10: the account specification as a regular expression\<close>

text \<open>
  C10 at the path \<^verbatim>\<open>wallet/a|b\<close>. The pattern compiled is \<^verbatim>\<open>^a|b$\<close>, in which \<^verbatim>\<open>^\<close>
  belongs to the first alternative and \<^verbatim>\<open>$\<close> to the second. Of a wallet with the
  accounts \<^verbatim>\<open>xb\<close>, \<^verbatim>\<open>c\<close>, \<^verbatim>\<open>ax\<close> and \<^verbatim>\<open>a\<close>, the accounts \<^verbatim>\<open>a\<close>, \<^verbatim>\<open>ax\<close> and \<^verbatim>\<open>xb\<close> are
  returned, although neither \<^verbatim>\<open>a\<close> nor \<^verbatim>\<open>b\<close> is the whole of \<^verbatim>\<open>ax\<close> or of \<^verbatim>\<open>xb\<close>: the
  specification in a group, \<^verbatim>\<open>^(a|b)$\<close>, matches the name \<^verbatim>\<open>a\<close> only.
\<close>

theorem alternation_escapes_anchors:
  "walletAndAccountsFromPath alt_env ''wallet/a|b''
     = Inr (alt_wallet, [named ''a'', named ''ax'', named ''xb'']) \<and>
   Accounts alt_wallet = [named ''xb'', named ''c'', named ''ax'', named ''a''] \<and>
   MustCompile ''^a|b$''
     = Inr (OpAlternate [OpConcat [OpBeginText, OpLiteral ''a''],
                         OpConcat [OpLiteral ''b'', OpEndText]]) \<and>
   MustCompile ''^(a|b)$''
     = Inr (OpConcat [OpBeginText,
                      OpCapture (OpAlternate [OpLiteral ''a'', OpLiteral ''b'']), OpEndText]) \<and>
   map (Match (OpConcat [OpBeginText,
                      OpCapture (OpAlternate [OpLiteral ''a'', OpLiteral ''b'']), OpEndText]))
       [''xb'', ''c'', ''ax'', ''a'']
     = [False, False, False, True]"
proof (intro conjI)
  have "walletFromPath alt_env ''wallet/a|b'' = Inr alt_wallet"
    by (simp add: walletFromPath_def alt_env_sel alt_names)
  then have "walletAndAccountsFromPath alt_env ''wallet/a|b''
     = Inr (alt_wallet,
        sort_key Name (filter (\<lambda>account. Match (OpAlternate [OpConcat [OpBeginText, OpLiteral ''a''],
                       OpConcat [OpLiteral ''b'', OpEndText]]) (Name account))
          (Accounts alt_wallet)))"
    by (simp add: walletAndAccountsFromPath_def alt_env_sel alt_names compile_alt)
  then show "walletAndAccountsFromPath alt_env ''wallet/a|b''
     = Inr (alt_wallet, [named ''a'', named ''ax'', named ''xb''])"
    by (simp only: alt_wallet_def wallet.simps sort_alt_matches)
  show "Accounts alt_wallet = [named ''xb'', named ''c'', named ''ax'', named ''a'']"
    by (simp add: alt_wallet_def)
  show "MustCompile ''^a|b$''
     = Inr (OpAlternate [OpConcat [OpBeginText, OpLiteral ''a''],
                         OpConcat [OpLiteral ''b'', OpEndText]])"
    by (rule compile_alt)
  show "MustCompile ''^(a|b)$''
     = Inr (OpConcat [OpBeginText,
                      OpCapture (OpAlternate [OpLiteral ''a'', OpLiteral ''b'']), OpEndText])"
    by code_simp
  show "map (Match (OpConcat [OpBeginText,
                      OpCapture (OpAlternate [OpLiteral ''a'', OpLiteral ''b'']), OpEndText]))
       [''xb'', ''c'', ''ax'', ''a'']
     = [False, False, False, True]"
    by code_simp
qed

end
